theory Spec2Isabelle
  imports Main "HOL-Library.Word"
begin

section \<open>The DCP consumer of ep-engine (src/dcp/consumer.cc)\<close>

text \<open>
  A shallow embedding of \<^verbatim>\<open>DcpConsumer\<close> and \<^verbatim>\<open>RollbackTask\<close>. Every member
  function becomes a function from the consumer's state to a result and the new state.
  Classes whose code is not in consumer.cc (PassiveStream, FlowControl, the engine and
  its store, the host's \<^verbatim>\<open>dcp_message_producers\<close>, ExtendedMetaData) are
  parameters: their states are type variables and their member functions are the fields
  of the record \<open>collaborators\<close>, so every theorem holds for every implementation of
  them. A field gives the result of the call and the new state of the object called; what
  the object does to the consumer in return (a stream announcing itself through
  notifyStreamReady, the flow control drawing an opaque) is outside consumer.cc and not
  part of the result.
\<close>

subsection \<open>Result codes and message classes\<close>

text \<open>\<^verbatim>\<open>ENGINE_ERROR_CODE\<close>, the enumeration of memcached's engine interface.\<close>

datatype ENGINE_ERROR_CODE =
    ENGINE_SUCCESS
  | ENGINE_KEY_ENOENT
  | ENGINE_KEY_EEXISTS
  | ENGINE_ENOMEM
  | ENGINE_NOT_STORED
  | ENGINE_EINVAL
  | ENGINE_ENOTSUP
  | ENGINE_EWOULDBLOCK
  | ENGINE_E2BIG
  | ENGINE_WANT_MORE
  | ENGINE_DISCONNECT
  | ENGINE_EACCESS
  | ENGINE_NOT_MY_VBUCKET
  | ENGINE_TMPFAIL
  | ENGINE_ERANGE
  | ENGINE_ROLLBACK
  | ENGINE_FAILED

text \<open>
  The ways a call ends without returning: \<^verbatim>\<open>abort()\<close>, the
  \<^verbatim>\<open>std::logic_error\<close> thrown by doRollback, a dereference of a null
  \<^verbatim>\<open>RCPtr\<close> or stream pointer, and a \<^verbatim>\<open>static_cast\<close> of a response to a
  class it does not have.
\<close>

datatype fault = Abort | LogicError | NullDeref | BadCast

datatype vbucket_state_t =
  vbucket_state_active | vbucket_state_replica | vbucket_state_pending | vbucket_state_dead

datatype stream_state_t = STREAM_PENDING | STREAM_READING | STREAM_DEAD

datatype end_stream_status_t =
  END_STREAM_OK | END_STREAM_CLOSED | END_STREAM_STATE | END_STREAM_DISCONNECTED
  | END_STREAM_SLOW

datatype dcp_event_t =
  DCP_MUTATION | DCP_DELETION | DCP_EXPIRATION | DCP_FLUSH | DCP_SET_VBUCKET
  | DCP_STREAM_REQ | DCP_STREAM_END | DCP_SNAPSHOT_MARKER | DCP_ADD_STREAM

text \<open>The item built by mutation and deletion, with the arguments the source passes.\<close>

record Item =
  item_key :: "8 word list"
  item_flags :: "32 word"
  item_exptime :: "32 word"
  item_value :: "8 word list"
  item_datatype :: "8 word option"
  item_cas :: "64 word"
  item_bySeqno :: "64 word"
  item_vbucket :: "16 word"
  item_revSeqno :: "64 word"
  item_deleted :: bool

text \<open>
  \<^verbatim>\<open>ExtendedMetaData\<close>: the consumer only reads the status its constructor left.
\<close>

record ExtendedMetaData =
  emd_bytes :: "8 word list"
  emd_status :: ENGINE_ERROR_CODE

text \<open>
  The subclasses of \<^verbatim>\<open>DcpResponse\<close> that consumer.cc builds or casts to, one
  constructor each: the four inbound messages with the arguments the source constructs
  them from, the four outbound ones with the fields step reads.
\<close>

datatype DcpResponse =
    StreamEndResponse "32 word" "32 word" "16 word"
  | MutationResponse Item "32 word" "ExtendedMetaData option"
  | SnapshotMarker "32 word" "16 word" "64 word" "64 word" "32 word"
  | SetVBucketState "32 word" "16 word" vbucket_state_t
  | AddStreamResponse "32 word" "32 word" "16 word"
  | StreamRequest "16 word" "32 word" "32 word" "64 word" "64 word" "64 word" "64 word" "64 word"
  | SetVBucketStateResponse "32 word" "16 word"
  | SnapshotMarkerResponse "32 word" "16 word"

text \<open>
  \<^verbatim>\<open>DcpResponse::getEvent\<close>. A mutation response of a deleted item carries
  DCP_DELETION; inbound and outbound messages of the same kind share their tag.
\<close>

fun getEvent :: "DcpResponse \<Rightarrow> dcp_event_t" where
  "getEvent (StreamEndResponse _ _ _) = DCP_STREAM_END"
| "getEvent (MutationResponse i _ _) = (if item_deleted i then DCP_DELETION else DCP_MUTATION)"
| "getEvent (SnapshotMarker _ _ _ _ _) = DCP_SNAPSHOT_MARKER"
| "getEvent (SetVBucketState _ _ _) = DCP_SET_VBUCKET"
| "getEvent (AddStreamResponse _ _ _) = DCP_ADD_STREAM"
| "getEvent (StreamRequest _ _ _ _ _ _ _ _) = DCP_STREAM_REQ"
| "getEvent (SetVBucketStateResponse _ _) = DCP_SET_VBUCKET"
| "getEvent (SnapshotMarkerResponse _ _) = DCP_SNAPSHOT_MARKER"

subsection \<open>The engine's partitions, as addStream and doRollback read them\<close>

record snapshot_info_t =
  info_start :: "64 word"
  range_start :: "64 word"
  range_end :: "64 word"

record VBucket =
  vb_getState :: vbucket_state_t
  getSnapshotInfo :: snapshot_info_t
  getLatestEntry_vb_uuid :: "64 word"
  getHighSeqno :: "64 word"

text \<open>The arguments of \<^verbatim>\<open>new PassiveStream(...)\<close> in addStream.\<close>

record PassiveStream_args =
  ps_flags :: "32 word"
  ps_opaque :: "32 word"
  ps_vb :: "16 word"
  ps_start_seqno :: "64 word"
  ps_end_seqno :: "64 word"
  ps_vb_uuid :: "64 word"
  ps_snap_start_seqno :: "64 word"
  ps_snap_end_seqno :: "64 word"
  ps_vb_high_seqno :: "64 word"

subsection \<open>The collaborators\<close>

text \<open>
  \<open>'st\<close> is the state of a PassiveStream, \<open>'fc\<close> of the FlowControl member, \<open>'eng\<close> of
  the engine with its store. Each field is a member function of a class outside
  consumer.cc, taking the object's state and returning its result with the new state.
  The five \<^verbatim>\<open>baseMsgBytes\<close> constants, the protocol's opcodes and status values
  and the numeric value of \<^verbatim>\<open>ENGINE_SUCCESS\<close> (compared with the 16-bit status in
  handleResponse and streamAccepted) are declared in headers outside consumer.cc and
  are parameters as well. \<open>new_response_throws\<close> says whether the \<^verbatim>\<open>new\<close> of a
  response inside a \<^verbatim>\<open>try\<close> block throws \<^verbatim>\<open>std::bad_alloc\<close>;
  \<open>new_ExtendedMetaData\<close> returns None for the null pointer the source tests for.
\<close>

record ('st, 'fc, 'eng) collaborators =
  PassiveStream_new :: "PassiveStream_args \<Rightarrow> 'st"
  getOpaque :: "'st \<Rightarrow> 32 word"
  isActive :: "'st \<Rightarrow> bool"
  getState :: "'st \<Rightarrow> stream_state_t"
  messageReceived :: "'st \<Rightarrow> DcpResponse \<Rightarrow> ENGINE_ERROR_CODE \<times> 'st"
  stream_next :: "'st \<Rightarrow> DcpResponse option \<times> 'st"
  setDead :: "'st \<Rightarrow> end_stream_status_t \<Rightarrow> 32 word \<times> 'st"
  reconnectStream :: "'st \<Rightarrow> VBucket \<Rightarrow> 32 word \<Rightarrow> 64 word \<Rightarrow> 'st"
  acceptStream :: "'st \<Rightarrow> 16 word \<Rightarrow> 32 word \<Rightarrow> 'st"
  incrFreedBytes :: "'fc \<Rightarrow> 32 word \<Rightarrow> 'fc"
  handleFlowCtl :: "'fc \<Rightarrow> ENGINE_ERROR_CODE \<times> 'fc"
  getVBucket :: "'eng \<Rightarrow> 16 word \<Rightarrow> VBucket option"
  rollback :: "'eng \<Rightarrow> 16 word \<Rightarrow> 64 word \<Rightarrow> ENGINE_ERROR_CODE \<times> 'eng"
  replaceFailoverLog :: "'eng \<Rightarrow> 16 word \<Rightarrow> 8 word list \<Rightarrow> 32 word \<Rightarrow> 'eng"
  scheduleVBSnapshot :: "'eng \<Rightarrow> 16 word \<Rightarrow> 'eng"
  control :: "32 word \<Rightarrow> string \<Rightarrow> string \<Rightarrow> ENGINE_ERROR_CODE"
  add_stream_rsp :: "32 word \<Rightarrow> 32 word \<Rightarrow> 16 word \<Rightarrow> ENGINE_ERROR_CODE"
  stream_req :: "32 word \<Rightarrow> 16 word \<Rightarrow> 32 word \<Rightarrow> 64 word \<Rightarrow> 64 word \<Rightarrow> 64 word
                 \<Rightarrow> 64 word \<Rightarrow> 64 word \<Rightarrow> ENGINE_ERROR_CODE"
  set_vbucket_state_rsp :: "32 word \<Rightarrow> 16 word \<Rightarrow> ENGINE_ERROR_CODE"
  marker_rsp :: "32 word \<Rightarrow> 16 word \<Rightarrow> ENGINE_ERROR_CODE"
  new_ExtendedMetaData :: "8 word list \<Rightarrow> ExtendedMetaData option"
  new_response_throws :: "DcpResponse \<Rightarrow> bool"
  mutationBaseMsgBytes :: "32 word"
  deletionBaseMsgBytes :: "32 word"
  StreamEndResponse_baseMsgBytes :: "32 word"
  SnapshotMarker_baseMsgBytes :: "32 word"
  SetVBucketState_baseMsgBytes :: "32 word"
  PROTOCOL_BINARY_CMD_DCP_STREAM_REQ :: "8 word"
  PROTOCOL_BINARY_CMD_DCP_BUFFER_ACKNOWLEDGEMENT :: "8 word"
  PROTOCOL_BINARY_CMD_DCP_CONTROL :: "8 word"
  PROTOCOL_BINARY_RESPONSE_ROLLBACK :: "16 word"
  ENGINE_SUCCESS_value :: "16 word"

subsection \<open>The consumer\<close>

text \<open>A RollbackTask as handleResponse constructs it: opaque, vbid, rollbackSeqno.\<close>

record RollbackTask =
  task_opaque :: "32 word"
  task_vbid :: "16 word"
  task_rollbackSeqno :: "64 word"

text \<open>
  The members of DcpConsumer that the modelled functions read or write. \<open>doDisconnect\<close>,
  \<open>paused\<close> and \<open>lastWalkTime\<close> are the base class's flags behind
  \<^verbatim>\<open>doDisconnect()\<close>, \<^verbatim>\<open>setPaused\<close> and \<^verbatim>\<open>setLastWalkTime\<close>.
  \<open>streams\<close> is the array of \<^verbatim>\<open>max_vbuckets\<close> stream pointers, None the null
  pointer; the source indexes it with the caller's vbucket unchecked, the model gives
  every 16-bit index a slot. \<open>opaqueCounter\<close> is incremented before each use and
  truncated to the 32 bits of an opaque. The executor pool appears as the calls the
  consumer makes on it: \<open>processerWakes\<close> counts \<^verbatim>\<open>wake(processerTaskId)\<close>,
  \<open>writerTasks\<close> lists the tasks scheduled on the writer pool. \<open>rollbackCount\<close> is
  the counter of the engine's statistics. \<open>engine\<close> and \<open>opaqueMap\<close> are the
  members \<^verbatim>\<open>engine_\<close> and \<^verbatim>\<open>opaqueMap_\<close>.
\<close>

record ('st, 'fc, 'eng) DcpConsumer =
  doDisconnect :: bool
  paused :: bool
  lastWalkTime :: "32 word"
  engine :: 'eng
  streams :: "16 word \<Rightarrow> 'st option"
  opaqueCounter :: "64 word"
  itemsToProcess :: bool
  lastNoopTime :: "32 word"
  noopInterval :: "32 word"
  pendingEnableNoop :: bool
  pendingSendNoopInterval :: bool
  pendingSetPriority :: bool
  pendingEnableExtMetaData :: bool
  pendingEnableValueCompression :: bool
  pendingSupportCursorDropping :: bool
  ready :: "16 word list"
  opaqueMap :: "32 word \<Rightarrow> (32 word \<times> 16 word) option"
  flowControl :: 'fc
  processerWakes :: nat
  writerTasks :: "RollbackTask list"
  rollbackCount :: nat

text \<open>The configuration values the constructor reads.\<close>

record Configuration =
  getDcpNoopInterval :: "32 word"
  isDcpEnableNoop :: bool
  isDcpValueCompressionEnabled :: bool

text \<open>
  The constructor, at time \<open>now\<close> (\<^verbatim>\<open>ep_current_time()\<close>), with the engine and
  the flow-control member it is given.
\<close>

definition DcpConsumer_new ::
  "Configuration \<Rightarrow> 32 word \<Rightarrow> 'eng \<Rightarrow> 'fc \<Rightarrow> ('st, 'fc, 'eng) DcpConsumer" where
  "DcpConsumer_new config now eng fc =
     \<lparr> doDisconnect = False, paused = False, lastWalkTime = now, engine = eng,
       streams = (\<lambda>_. None), opaqueCounter = 0, itemsToProcess = False,
       lastNoopTime = now, noopInterval = getDcpNoopInterval config,
       pendingEnableNoop = isDcpEnableNoop config,
       pendingSendNoopInterval = isDcpEnableNoop config,
       pendingSetPriority = True, pendingEnableExtMetaData = True,
       pendingEnableValueCompression = isDcpValueCompressionEnabled config,
       pendingSupportCursorDropping = True,
       ready = [], opaqueMap = (\<lambda>_. None), flowControl = fc,
       processerWakes = 0, writerTasks = [], rollbackCount = 0 \<rparr>"

subsection \<open>Inbound calls\<close>

text \<open>
  The block every message call repeats after messageReceived: when the message was
  buffered (TMPFAIL) and \<open>itemsToProcess\<close> goes from false to true
  (\<^verbatim>\<open>compare_exchange_strong\<close>), the processor task is woken.
\<close>

definition wakeProcesser ::
  "ENGINE_ERROR_CODE \<Rightarrow> ('st, 'fc, 'eng) DcpConsumer \<Rightarrow> ('st, 'fc, 'eng) DcpConsumer" where
  "wakeProcesser err s =
     (if err = ENGINE_TMPFAIL \<and> \<not> itemsToProcess s
      then s\<lparr>itemsToProcess := True, processerWakes := Suc (processerWakes s)\<rparr>
      else s)"

text \<open>\<^verbatim>\<open>stream && stream->getOpaque() == opaque && stream->isActive()\<close>\<close>

definition liveStream ::
  "('st, 'fc, 'eng) collaborators \<Rightarrow> 'st option \<Rightarrow> 32 word \<Rightarrow> bool" where
  "liveStream E stream opaque =
     (case stream of None \<Rightarrow> False
      | Some st \<Rightarrow> getOpaque E st = opaque \<and> isActive E st)"

definition addStream ::
  "('st, 'fc, 'eng) collaborators \<Rightarrow> ('st, 'fc, 'eng) DcpConsumer \<Rightarrow> 32 word \<Rightarrow> 16 word
   \<Rightarrow> 32 word \<Rightarrow> ENGINE_ERROR_CODE \<times> ('st, 'fc, 'eng) DcpConsumer" where
  "addStream E s opaque vbucket flags =
     (if doDisconnect s then (ENGINE_DISCONNECT, s)
      else case getVBucket E (engine s) vbucket of
        None \<Rightarrow> (ENGINE_NOT_MY_VBUCKET, s)
      | Some vb \<Rightarrow>
          if vb_getState vb = vbucket_state_active then (ENGINE_NOT_MY_VBUCKET, s)
          else
            let info0 = getSnapshotInfo vb;
                info = (if range_end info0 = info_start info0
                        then info0\<lparr>range_start := info_start info0\<rparr> else info0);
                s1 = s\<lparr>opaqueCounter := opaqueCounter s + 1\<rparr>;
                new_opaque = (ucast (opaqueCounter s1) :: 32 word)
            in if (case streams s1 vbucket of
                     None \<Rightarrow> False | Some stream \<Rightarrow> isActive E stream)
               then (ENGINE_KEY_EEXISTS, s1)
               else (ENGINE_SUCCESS, s1\<lparr>
                 streams := (streams s1)(vbucket := Some (PassiveStream_new E
                   \<lparr> ps_flags = flags, ps_opaque = new_opaque, ps_vb = vbucket,
                     ps_start_seqno = info_start info, ps_end_seqno = - 1,
                     ps_vb_uuid = getLatestEntry_vb_uuid vb,
                     ps_snap_start_seqno = range_start info,
                     ps_snap_end_seqno = range_end info,
                     ps_vb_high_seqno = getHighSeqno vb \<rparr>)),
                 ready := ready s1 @ [vbucket],
                 opaqueMap := (opaqueMap s1)(new_opaque := Some (opaque, vbucket))\<rparr>))"

definition closeStream ::
  "('st, 'fc, 'eng) collaborators \<Rightarrow> ('st, 'fc, 'eng) DcpConsumer \<Rightarrow> 32 word \<Rightarrow> 16 word
   \<Rightarrow> ENGINE_ERROR_CODE \<times> ('st, 'fc, 'eng) DcpConsumer" where
  "closeStream E s opaque vbucket =
     (if doDisconnect s then (ENGINE_DISCONNECT, s)
      else
        let s1 = s\<lparr>opaqueMap := (opaqueMap s)(opaque := None)\<rparr>
        in case streams s1 vbucket of
             None \<Rightarrow> (ENGINE_KEY_ENOENT, s1)
           | Some stream \<Rightarrow>
               (case setDead E stream END_STREAM_CLOSED of
                  (bytesCleared, stream') \<Rightarrow>
                    (ENGINE_SUCCESS,
                     s1\<lparr>streams := (streams s1)(vbucket := Some stream'),
                        flowControl := incrFreedBytes E (flowControl s1) bytesCleared\<rparr>)))"

text \<open>
  The five message calls share one shape. \<open>deliver\<close> is the body of the
  \<^verbatim>\<open>if (stream && ...)\<close> block from the \<^verbatim>\<open>try\<close> on: Inl is an early
  \<^verbatim>\<open>return\<close> from inside the block, Inr the value \<open>err\<close> has after it.
\<close>

definition deliver ::
  "('st, 'fc, 'eng) collaborators \<Rightarrow> ('st, 'fc, 'eng) DcpConsumer \<Rightarrow> 16 word \<Rightarrow> 'st
   \<Rightarrow> DcpResponse
   \<Rightarrow> (ENGINE_ERROR_CODE + ENGINE_ERROR_CODE) \<times> ('st, 'fc, 'eng) DcpConsumer" where
  "deliver E s vbucket stream response =
     (if new_response_throws E response then (Inl ENGINE_ENOMEM, s)
      else case messageReceived E stream response of
        (err, stream') \<Rightarrow>
          (Inr err, wakeProcesser err (s\<lparr>streams := (streams s)(vbucket := Some stream')\<rparr>)))"

text \<open>
  What follows the block: a buffered message returns SUCCESS at once, every other value
  of \<open>err\<close> passes \<^verbatim>\<open>flowControl.incrFreedBytes(bytes)\<close> and is returned.
\<close>

definition afterBlock ::
  "('st, 'fc, 'eng) collaborators \<Rightarrow> 32 word
   \<Rightarrow> (ENGINE_ERROR_CODE + ENGINE_ERROR_CODE) \<times> ('st, 'fc, 'eng) DcpConsumer
   \<Rightarrow> ENGINE_ERROR_CODE \<times> ('st, 'fc, 'eng) DcpConsumer" where
  "afterBlock E bytes r =
     (case r of
        (Inl early, s) \<Rightarrow> (early, s)
      | (Inr err, s) \<Rightarrow>
          if err = ENGINE_TMPFAIL then (ENGINE_SUCCESS, s)
          else (err, s\<lparr>flowControl := incrFreedBytes E (flowControl s) bytes\<rparr>))"

definition streamEnd ::
  "('st, 'fc, 'eng) collaborators \<Rightarrow> ('st, 'fc, 'eng) DcpConsumer \<Rightarrow> 32 word \<Rightarrow> 16 word
   \<Rightarrow> 32 word \<Rightarrow> ENGINE_ERROR_CODE \<times> ('st, 'fc, 'eng) DcpConsumer" where
  "streamEnd E s opaque vbucket flags =
     (if doDisconnect s then (ENGINE_DISCONNECT, s)
      else afterBlock E (StreamEndResponse_baseMsgBytes E)
        (case streams s vbucket of
           None \<Rightarrow> (Inr ENGINE_KEY_ENOENT, s)
         | Some stream \<Rightarrow>
             if getOpaque E stream = opaque \<and> isActive E stream
             then deliver E s vbucket stream (StreamEndResponse opaque flags vbucket)
             else (Inr ENGINE_KEY_ENOENT, s)))"

text \<open>
  \<^verbatim>\<open>ExtendedMetaData *emd = NULL; if (nmeta > 0) { ... }\<close> of mutation and
  deletion: Inl is the early return, Inr the pointer the response is built with.
\<close>

definition makeExtendedMetaData ::
  "('st, 'fc, 'eng) collaborators \<Rightarrow> 8 word list \<Rightarrow> 16 word
   \<Rightarrow> ENGINE_ERROR_CODE + ExtendedMetaData option" where
  "makeExtendedMetaData E meta nmeta =
     (if nmeta > 0 then
        (case new_ExtendedMetaData E meta of
           None \<Rightarrow> Inl ENGINE_ENOMEM
         | Some emd \<Rightarrow>
             if emd_status emd = ENGINE_EINVAL then Inl ENGINE_EINVAL else Inr (Some emd))
      else Inr None)"

text \<open>
  \<^verbatim>\<open>new Item(key, nkey, flags, exptime, value, nvalue, &datatype, EXT_META_LEN, cas,
  bySeqno, vbucket, revSeqno)\<close> of mutation, and the item of deletion, built with
  flags 0, expiry 0, no value and no datatype and then marked deleted.
\<close>

definition mutationItem ::
  "8 word list \<Rightarrow> 32 word \<Rightarrow> 32 word \<Rightarrow> 8 word list \<Rightarrow> 8 word \<Rightarrow> 64 word \<Rightarrow> 64 word
   \<Rightarrow> 16 word \<Rightarrow> 64 word \<Rightarrow> Item" where
  "mutationItem key flags exptime val datatype cas bySeqno vbucket revSeqno =
     \<lparr> item_key = key, item_flags = flags, item_exptime = exptime, item_value = val,
       item_datatype = Some datatype, item_cas = cas, item_bySeqno = bySeqno,
       item_vbucket = vbucket, item_revSeqno = revSeqno, item_deleted = False \<rparr>"

definition deletionItem ::
  "8 word list \<Rightarrow> 64 word \<Rightarrow> 64 word \<Rightarrow> 16 word \<Rightarrow> 64 word \<Rightarrow> Item" where
  "deletionItem key cas bySeqno vbucket revSeqno =
     \<lparr> item_key = key, item_flags = 0, item_exptime = 0, item_value = [],
       item_datatype = None, item_cas = cas, item_bySeqno = bySeqno,
       item_vbucket = vbucket, item_revSeqno = revSeqno, item_deleted = True \<rparr>"

definition mutation ::
  "('st, 'fc, 'eng) collaborators \<Rightarrow> ('st, 'fc, 'eng) DcpConsumer \<Rightarrow> 32 word
   \<Rightarrow> 8 word list \<Rightarrow> 16 word \<Rightarrow> 8 word list \<Rightarrow> 32 word \<Rightarrow> 64 word \<Rightarrow> 16 word \<Rightarrow> 32 word
   \<Rightarrow> 8 word \<Rightarrow> 32 word \<Rightarrow> 64 word \<Rightarrow> 64 word \<Rightarrow> 32 word \<Rightarrow> 8 word \<Rightarrow> 8 word list
   \<Rightarrow> 16 word \<Rightarrow> ENGINE_ERROR_CODE \<times> ('st, 'fc, 'eng) DcpConsumer" where
  "mutation E s opaque key nkey val nvalue cas vbucket flags datatype locktime bySeqno
            revSeqno exptime nru meta nmeta =
     (if doDisconnect s then (ENGINE_DISCONNECT, s)
      else if bySeqno = 0 then (ENGINE_EINVAL, s)
      else afterBlock E (mutationBaseMsgBytes E + ucast nkey + ucast nmeta + nvalue)
        (case streams s vbucket of
           None \<Rightarrow> (Inr ENGINE_KEY_ENOENT, s)
         | Some stream \<Rightarrow>
             if getOpaque E stream = opaque \<and> isActive E stream
             then
               (case makeExtendedMetaData E meta nmeta of
                  Inl early \<Rightarrow> (Inl early, s)
                | Inr emd \<Rightarrow>
                    deliver E s vbucket stream
                      (MutationResponse
                         (mutationItem key flags exptime val datatype cas bySeqno vbucket
                            revSeqno)
                         opaque emd))
             else (Inr ENGINE_KEY_ENOENT, s)))"

definition deletion ::
  "('st, 'fc, 'eng) collaborators \<Rightarrow> ('st, 'fc, 'eng) DcpConsumer \<Rightarrow> 32 word
   \<Rightarrow> 8 word list \<Rightarrow> 16 word \<Rightarrow> 64 word \<Rightarrow> 16 word \<Rightarrow> 64 word \<Rightarrow> 64 word \<Rightarrow> 8 word list
   \<Rightarrow> 16 word \<Rightarrow> ENGINE_ERROR_CODE \<times> ('st, 'fc, 'eng) DcpConsumer" where
  "deletion E s opaque key nkey cas vbucket bySeqno revSeqno meta nmeta =
     (if doDisconnect s then (ENGINE_DISCONNECT, s)
      else if bySeqno = 0 then (ENGINE_EINVAL, s)
      else afterBlock E (deletionBaseMsgBytes E + ucast nkey + ucast nmeta)
        (case streams s vbucket of
           None \<Rightarrow> (Inr ENGINE_KEY_ENOENT, s)
         | Some stream \<Rightarrow>
             if getOpaque E stream = opaque \<and> isActive E stream
             then
               (case makeExtendedMetaData E meta nmeta of
                  Inl early \<Rightarrow> (Inl early, s)
                | Inr emd \<Rightarrow>
                    deliver E s vbucket stream
                      (MutationResponse (deletionItem key cas bySeqno vbucket revSeqno)
                         opaque emd))
             else (Inr ENGINE_KEY_ENOENT, s)))"

definition expiration ::
  "('st, 'fc, 'eng) collaborators \<Rightarrow> ('st, 'fc, 'eng) DcpConsumer \<Rightarrow> 32 word
   \<Rightarrow> 8 word list \<Rightarrow> 16 word \<Rightarrow> 64 word \<Rightarrow> 16 word \<Rightarrow> 64 word \<Rightarrow> 64 word \<Rightarrow> 8 word list
   \<Rightarrow> 16 word \<Rightarrow> ENGINE_ERROR_CODE \<times> ('st, 'fc, 'eng) DcpConsumer" where
  "expiration E s opaque key nkey cas vbucket bySeqno revSeqno meta nmeta =
     deletion E s opaque key nkey cas vbucket bySeqno revSeqno meta nmeta"

definition snapshotMarker ::
  "('st, 'fc, 'eng) collaborators \<Rightarrow> ('st, 'fc, 'eng) DcpConsumer \<Rightarrow> 32 word \<Rightarrow> 16 word
   \<Rightarrow> 64 word \<Rightarrow> 64 word \<Rightarrow> 32 word
   \<Rightarrow> ENGINE_ERROR_CODE \<times> ('st, 'fc, 'eng) DcpConsumer" where
  "snapshotMarker E s opaque vbucket start_seqno end_seqno flags =
     (if doDisconnect s then (ENGINE_DISCONNECT, s)
      else if start_seqno > end_seqno then (ENGINE_EINVAL, s)
      else afterBlock E (SnapshotMarker_baseMsgBytes E)
        (case streams s vbucket of
           None \<Rightarrow> (Inr ENGINE_KEY_ENOENT, s)
         | Some stream \<Rightarrow>
             if getOpaque E stream = opaque \<and> isActive E stream
             then deliver E s vbucket stream
                    (SnapshotMarker opaque vbucket start_seqno end_seqno flags)
             else (Inr ENGINE_KEY_ENOENT, s)))"

definition noop ::
  "('st, 'fc, 'eng) DcpConsumer \<Rightarrow> 32 word \<Rightarrow> 32 word
   \<Rightarrow> ENGINE_ERROR_CODE \<times> ('st, 'fc, 'eng) DcpConsumer" where
  "noop s now opaque = (ENGINE_SUCCESS, s\<lparr>lastNoopTime := now\<rparr>)"

definition flush ::
  "('st, 'fc, 'eng) DcpConsumer \<Rightarrow> 32 word \<Rightarrow> 16 word
   \<Rightarrow> ENGINE_ERROR_CODE \<times> ('st, 'fc, 'eng) DcpConsumer" where
  "flush s opaque vbucket =
     (if doDisconnect s then (ENGINE_DISCONNECT, s) else (ENGINE_ENOTSUP, s))"

definition setVBucketState ::
  "('st, 'fc, 'eng) collaborators \<Rightarrow> ('st, 'fc, 'eng) DcpConsumer \<Rightarrow> 32 word \<Rightarrow> 16 word
   \<Rightarrow> vbucket_state_t \<Rightarrow> ENGINE_ERROR_CODE \<times> ('st, 'fc, 'eng) DcpConsumer" where
  "setVBucketState E s opaque vbucket state =
     (if doDisconnect s then (ENGINE_DISCONNECT, s)
      else afterBlock E (SetVBucketState_baseMsgBytes E)
        (case streams s vbucket of
           None \<Rightarrow> (Inr ENGINE_KEY_ENOENT, s)
         | Some stream \<Rightarrow>
             if getOpaque E stream = opaque \<and> isActive E stream
             then deliver E s vbucket stream (SetVBucketState opaque vbucket state)
             else (Inr ENGINE_KEY_ENOENT, s)))"

subsection \<open>The outbound pump\<close>

text \<open>The control keys, as the static strings of the source.\<close>

definition noopCtrlMsg :: string where "noopCtrlMsg = ''enable_noop''"
definition noopIntervalCtrlMsg :: string where "noopIntervalCtrlMsg = ''set_noop_interval''"
definition priorityCtrlMsg :: string where "priorityCtrlMsg = ''set_priority''"
definition extMetadataCtrlMsg :: string where "extMetadataCtrlMsg = ''enable_ext_metadata''"
definition valueCompressionCtrlMsg :: string where
  "valueCompressionCtrlMsg = ''enable_value_compression''"
definition cursorDroppingCtrlMsg :: string where
  "cursorDroppingCtrlMsg = ''supports_cursor_dropping''"

text \<open>
  \<^verbatim>\<open>snprintf(buf_size, 10, "%u", noopInterval)\<close>: the decimal digits, cut to the
  nine characters the buffer holds besides the terminator.
\<close>

fun decimal :: "nat \<Rightarrow> string" where
  "decimal n =
     (if n < 10 then [char_of (48 + n)] else decimal (n div 10) @ [char_of (48 + n mod 10)])"

definition snprintf10 :: "32 word \<Rightarrow> string" where
  "snprintf10 v = take 9 (decimal (unat v))"

text \<open>\<^verbatim>\<open>uint32_t opaque = ++opaqueCounter\<close>\<close>

definition mintOpaque ::
  "('st, 'fc, 'eng) DcpConsumer \<Rightarrow> 32 word \<times> ('st, 'fc, 'eng) DcpConsumer" where
  "mintOpaque s = (ucast (opaqueCounter s + 1), s\<lparr>opaqueCounter := opaqueCounter s + 1\<rparr>)"

text \<open>
  handleNoop at time \<open>now\<close>. The subtraction and the doubling are the source's unsigned
  32-bit operations and wrap around.
\<close>

definition handleNoop ::
  "('st, 'fc, 'eng) collaborators \<Rightarrow> 32 word \<Rightarrow> ('st, 'fc, 'eng) DcpConsumer
   \<Rightarrow> ENGINE_ERROR_CODE \<times> ('st, 'fc, 'eng) DcpConsumer" where
  "handleNoop E now s =
     (if pendingEnableNoop s then
        (case mintOpaque s of (opaque, s1) \<Rightarrow>
           (control E opaque noopCtrlMsg ''true'', s1\<lparr>pendingEnableNoop := False\<rparr>))
      else if pendingSendNoopInterval s then
        (case mintOpaque s of (opaque, s1) \<Rightarrow>
           (control E opaque noopIntervalCtrlMsg (snprintf10 (noopInterval s)),
            s1\<lparr>pendingSendNoopInterval := False\<rparr>))
      else if now - lastNoopTime s > noopInterval s * 2 then (ENGINE_DISCONNECT, s)
      else (ENGINE_FAILED, s))"

definition handlePriority ::
  "('st, 'fc, 'eng) collaborators \<Rightarrow> ('st, 'fc, 'eng) DcpConsumer
   \<Rightarrow> ENGINE_ERROR_CODE \<times> ('st, 'fc, 'eng) DcpConsumer" where
  "handlePriority E s =
     (if pendingSetPriority s then
        (case mintOpaque s of (opaque, s1) \<Rightarrow>
           (control E opaque priorityCtrlMsg ''high'', s1\<lparr>pendingSetPriority := False\<rparr>))
      else (ENGINE_FAILED, s))"

definition handleExtMetaData ::
  "('st, 'fc, 'eng) collaborators \<Rightarrow> ('st, 'fc, 'eng) DcpConsumer
   \<Rightarrow> ENGINE_ERROR_CODE \<times> ('st, 'fc, 'eng) DcpConsumer" where
  "handleExtMetaData E s =
     (if pendingEnableExtMetaData s then
        (case mintOpaque s of (opaque, s1) \<Rightarrow>
           (control E opaque extMetadataCtrlMsg ''true'',
            s1\<lparr>pendingEnableExtMetaData := False\<rparr>))
      else (ENGINE_FAILED, s))"

definition handleValueCompression ::
  "('st, 'fc, 'eng) collaborators \<Rightarrow> ('st, 'fc, 'eng) DcpConsumer
   \<Rightarrow> ENGINE_ERROR_CODE \<times> ('st, 'fc, 'eng) DcpConsumer" where
  "handleValueCompression E s =
     (if pendingEnableValueCompression s then
        (case mintOpaque s of (opaque, s1) \<Rightarrow>
           (control E opaque valueCompressionCtrlMsg ''true'',
            s1\<lparr>pendingEnableValueCompression := False\<rparr>))
      else (ENGINE_FAILED, s))"

definition supportCursorDropping ::
  "('st, 'fc, 'eng) collaborators \<Rightarrow> ('st, 'fc, 'eng) DcpConsumer
   \<Rightarrow> ENGINE_ERROR_CODE \<times> ('st, 'fc, 'eng) DcpConsumer" where
  "supportCursorDropping E s =
     (if pendingSupportCursorDropping s then
        (case mintOpaque s of (opaque, s1) \<Rightarrow>
           (control E opaque cursorDroppingCtrlMsg ''true'',
            s1\<lparr>pendingSupportCursorDropping := False\<rparr>))
      else (ENGINE_FAILED, s))"

text \<open>
  The events getNextItem lets through; every other event reaches the
  \<^verbatim>\<open>default\<close> arm and \<^verbatim>\<open>abort()\<close>.
\<close>

definition outboundEvent :: "dcp_event_t \<Rightarrow> bool" where
  "outboundEvent e =
     (e = DCP_STREAM_REQ \<or> e = DCP_ADD_STREAM \<or> e = DCP_SET_VBUCKET
      \<or> e = DCP_SNAPSHOT_MARKER)"

text \<open>
  The \<^verbatim>\<open>while (!ready.empty())\<close> loop of getNextItem with the
  \<^verbatim>\<open>setPaused(true); return NULL\<close> that follows it.
\<close>

function getNextItem_loop ::
  "('st, 'fc, 'eng) collaborators \<Rightarrow> ('st, 'fc, 'eng) DcpConsumer
   \<Rightarrow> fault + DcpResponse option \<times> ('st, 'fc, 'eng) DcpConsumer" where
  "getNextItem_loop E s =
     (case ready s of
        [] \<Rightarrow> Inr (None, s\<lparr>paused := True\<rparr>)
      | vbucket # rest \<Rightarrow>
          (case streams s vbucket of
             None \<Rightarrow> getNextItem_loop E (s\<lparr>ready := rest\<rparr>)
           | Some stream \<Rightarrow>
               (case stream_next E stream of
                  (None, stream') \<Rightarrow>
                    getNextItem_loop E
                      (s\<lparr>ready := rest, streams := (streams s)(vbucket := Some stream')\<rparr>)
                | (Some op, stream') \<Rightarrow>
                    if outboundEvent (getEvent op)
                    then Inr (Some op,
                      s\<lparr>ready := rest @ [vbucket],
                        streams := (streams s)(vbucket := Some stream')\<rparr>)
                    else Inl Abort)))"
  by pat_completeness auto
termination
  by (relation "measure (\<lambda>(E, s). length (ready s))") auto

declare getNextItem_loop.simps [simp del]

definition getNextItem ::
  "('st, 'fc, 'eng) collaborators \<Rightarrow> ('st, 'fc, 'eng) DcpConsumer
   \<Rightarrow> fault + DcpResponse option \<times> ('st, 'fc, 'eng) DcpConsumer" where
  "getNextItem E s = getNextItem_loop E (s\<lparr>paused := False\<rparr>)"

text \<open>
  The \<^verbatim>\<open>switch (resp->getEvent())\<close> of step. Each arm casts the response to the
  outbound class of its event; an inbound message with the same tag is not of that class.
\<close>

fun sendResponse :: "('st, 'fc, 'eng) collaborators \<Rightarrow> DcpResponse \<Rightarrow> fault + ENGINE_ERROR_CODE"
  where
  "sendResponse E (AddStreamResponse opaque streamOpaque status) =
     Inr (add_stream_rsp E opaque streamOpaque status)"
| "sendResponse E (StreamRequest vb opaque flags start_seqno end_seqno uuid snap_start snap_end) =
     Inr (stream_req E opaque vb flags start_seqno end_seqno uuid snap_start snap_end)"
| "sendResponse E (SetVBucketStateResponse opaque status) =
     Inr (set_vbucket_state_rsp E opaque status)"
| "sendResponse E (SnapshotMarkerResponse opaque status) = Inr (marker_rsp E opaque status)"
| "sendResponse E (SetVBucketState _ _ _) = Inl BadCast"
| "sendResponse E (SnapshotMarker _ _ _ _ _) = Inl BadCast"
| "sendResponse E (StreamEndResponse _ _ _) = Inr ENGINE_DISCONNECT"
| "sendResponse E (MutationResponse _ _ _) = Inr ENGINE_DISCONNECT"

text \<open>
  \<^verbatim>\<open>if (ret == ENGINE_SUCCESS) { ret = ENGINE_WANT_MORE; } return ret;\<close>
\<close>

definition wantMore :: "ENGINE_ERROR_CODE \<Rightarrow> ENGINE_ERROR_CODE" where
  "wantMore ret = (if ret = ENGINE_SUCCESS then ENGINE_WANT_MORE else ret)"

definition step ::
  "('st, 'fc, 'eng) collaborators \<Rightarrow> 32 word \<Rightarrow> ('st, 'fc, 'eng) DcpConsumer
   \<Rightarrow> fault + ENGINE_ERROR_CODE \<times> ('st, 'fc, 'eng) DcpConsumer" where
  "step E now s0 =
     (let s = s0\<lparr>lastWalkTime := now\<rparr> in
      if doDisconnect s then Inr (ENGINE_DISCONNECT, s)
      else case handleFlowCtl E (flowControl s) of (ret, fc) \<Rightarrow>
        if ret \<noteq> ENGINE_FAILED then Inr (wantMore ret, s\<lparr>flowControl := fc\<rparr>)
        else case handleNoop E now (s\<lparr>flowControl := fc\<rparr>) of (ret, s) \<Rightarrow>
        if ret \<noteq> ENGINE_FAILED then Inr (wantMore ret, s)
        else case handlePriority E s of (ret, s) \<Rightarrow>
        if ret \<noteq> ENGINE_FAILED then Inr (wantMore ret, s)
        else case handleExtMetaData E s of (ret, s) \<Rightarrow>
        if ret \<noteq> ENGINE_FAILED then Inr (wantMore ret, s)
        else case handleValueCompression E s of (ret, s) \<Rightarrow>
        if ret \<noteq> ENGINE_FAILED then Inr (wantMore ret, s)
        else case supportCursorDropping E s of (ret, s) \<Rightarrow>
        if ret \<noteq> ENGINE_FAILED then Inr (wantMore ret, s)
        else case getNextItem E s of
          Inl f \<Rightarrow> Inl f
        | Inr (None, s) \<Rightarrow> Inr (ENGINE_SUCCESS, s)
        | Inr (Some resp, s) \<Rightarrow>
            (case sendResponse E resp of
               Inl f \<Rightarrow> Inl f
             | Inr ret \<Rightarrow> Inr (wantMore ret, s)))"

definition notifyStreamReady ::
  "('st, 'fc, 'eng) DcpConsumer \<Rightarrow> 16 word \<Rightarrow> ('st, 'fc, 'eng) DcpConsumer" where
  "notifyStreamReady s vbucket =
     (if vbucket \<in> set (ready s) then s else s\<lparr>ready := ready s @ [vbucket]\<rparr>)"

subsection \<open>Responses and rollback\<close>

text \<open>
  A response packet as handleResponse reads it: \<open>resp_status\<close> and \<open>resp_bodylen\<close> are
  the header fields after \<^verbatim>\<open>ntohs\<close> and \<^verbatim>\<open>ntohl\<close>, \<open>resp_body\<close> the bytes
  behind the header.
\<close>

record protocol_binary_response =
  resp_opcode :: "8 word"
  resp_opaque :: "32 word"
  resp_status :: "16 word"
  resp_bodylen :: "32 word"
  resp_body :: "8 word list"

text \<open>
  \<^verbatim>\<open>memcpy(&rollbackSeqno, body, sizeof(uint64_t)); ntohll(rollbackSeqno)\<close>: the
  first eight bytes read as a big-endian number.
\<close>

definition ntohll_body :: "8 word list \<Rightarrow> 64 word" where
  "ntohll_body body = foldl (\<lambda>acc b. push_bit 8 acc + ucast b) 0 (take 8 body)"

definition isValidOpaque ::
  "('st, 'fc, 'eng) collaborators \<Rightarrow> ('st, 'fc, 'eng) DcpConsumer \<Rightarrow> 32 word \<Rightarrow> 16 word
   \<Rightarrow> bool" where
  "isValidOpaque E s opaque vbucket =
     (case streams s vbucket of None \<Rightarrow> False | Some stream \<Rightarrow> getOpaque E stream = opaque)"

definition streamAccepted ::
  "('st, 'fc, 'eng) collaborators \<Rightarrow> ('st, 'fc, 'eng) DcpConsumer \<Rightarrow> 32 word \<Rightarrow> 16 word
   \<Rightarrow> 8 word list \<Rightarrow> 32 word \<Rightarrow> fault + ('st, 'fc, 'eng) DcpConsumer" where
  "streamAccepted E s opaque status body bodylen =
     (case opaqueMap s opaque of
        None \<Rightarrow> Inr s
      | Some (add_opaque, vbucket) \<Rightarrow>
          (case streams s vbucket of
             None \<Rightarrow> Inr (s\<lparr>opaqueMap := (opaqueMap s)(opaque := None)\<rparr>)
           | Some stream \<Rightarrow>
               if getOpaque E stream = opaque \<and> getState E stream = STREAM_PENDING then
                 (if status = ENGINE_SUCCESS_value E then
                    (case getVBucket E (engine s) vbucket of
                       None \<Rightarrow> Inl NullDeref
                     | Some vb \<Rightarrow>
                         Inr (s\<lparr>engine := scheduleVBSnapshot E
                                   (replaceFailoverLog E (engine s) vbucket body bodylen)
                                   vbucket,
                                streams := (streams s)(vbucket :=
                                   Some (acceptStream E stream status add_opaque)),
                                opaqueMap := (opaqueMap s)(opaque := None)\<rparr>))
                  else
                    Inr (s\<lparr>streams := (streams s)(vbucket :=
                               Some (acceptStream E stream status add_opaque)),
                            opaqueMap := (opaqueMap s)(opaque := None)\<rparr>))
               else Inr (s\<lparr>opaqueMap := (opaqueMap s)(opaque := None)\<rparr>)))"

definition handleResponse ::
  "('st, 'fc, 'eng) collaborators \<Rightarrow> ('st, 'fc, 'eng) DcpConsumer \<Rightarrow> protocol_binary_response
   \<Rightarrow> fault + ENGINE_ERROR_CODE \<times> ('st, 'fc, 'eng) DcpConsumer" where
  "handleResponse E s resp =
     (if doDisconnect s then Inr (ENGINE_DISCONNECT, s)
      else
        let opcode = resp_opcode resp; opaque = resp_opaque resp in
        case opaqueMap s opaque of
          None \<Rightarrow> Inr (ENGINE_KEY_ENOENT, s)
        | Some (add_opaque, vbid) \<Rightarrow>
            if \<not> isValidOpaque E s opaque vbid then Inr (ENGINE_KEY_ENOENT, s)
            else if opcode = PROTOCOL_BINARY_CMD_DCP_STREAM_REQ E then
              (let status = resp_status resp;
                   bodylen = (ucast (resp_bodylen resp) :: 64 word);
                   body = resp_body resp
               in if status = PROTOCOL_BINARY_RESPONSE_ROLLBACK E then
                    (if bodylen \<noteq> 8 then Inr (ENGINE_DISCONNECT, s)
                     else Inr (ENGINE_SUCCESS,
                       s\<lparr>writerTasks := writerTasks s @
                           [\<lparr> task_opaque = opaque, task_vbid = vbid,
                              task_rollbackSeqno = ntohll_body body \<rparr>]\<rparr>))
                  else if (bodylen mod 16 \<noteq> 0 \<or> bodylen = 0)
                          \<and> status = ENGINE_SUCCESS_value E
                  then Inr (ENGINE_DISCONNECT, s)
                  else (case streamAccepted E s opaque status body (ucast bodylen) of
                          Inl f \<Rightarrow> Inl f
                        | Inr s' \<Rightarrow> Inr (ENGINE_SUCCESS, s')))
            else if opcode = PROTOCOL_BINARY_CMD_DCP_BUFFER_ACKNOWLEDGEMENT E
                    \<or> opcode = PROTOCOL_BINARY_CMD_DCP_CONTROL E
            then Inr (ENGINE_SUCCESS, s)
            else Inr (ENGINE_DISCONNECT, s))"

definition doRollback ::
  "('st, 'fc, 'eng) collaborators \<Rightarrow> ('st, 'fc, 'eng) DcpConsumer \<Rightarrow> 32 word \<Rightarrow> 16 word
   \<Rightarrow> 64 word \<Rightarrow> fault + bool \<times> ('st, 'fc, 'eng) DcpConsumer" where
  "doRollback E s opaque vbid rollbackSeqno =
     (case rollback E (engine s) vbid rollbackSeqno of
        (err, eng) \<Rightarrow>
          if err = ENGINE_NOT_MY_VBUCKET then Inr (False, s\<lparr>engine := eng\<rparr>)
          else if err = ENGINE_TMPFAIL then Inr (True, s\<lparr>engine := eng\<rparr>)
          else if err = ENGINE_SUCCESS then
            (case getVBucket E eng vbid of
               None \<Rightarrow> Inl NullDeref
             | Some vb \<Rightarrow>
                 (case streams s vbid of
                    None \<Rightarrow> Inl NullDeref
                  | Some stream \<Rightarrow>
                      Inr (False,
                        s\<lparr>engine := eng,
                          streams := (streams s)(vbid :=
                            Some (reconnectStream E stream vb opaque (getHighSeqno vb)))\<rparr>)))
          else Inl LogicError)"

definition RollbackTask_run ::
  "('st, 'fc, 'eng) collaborators \<Rightarrow> ('st, 'fc, 'eng) DcpConsumer \<Rightarrow> RollbackTask
   \<Rightarrow> fault + bool \<times> ('st, 'fc, 'eng) DcpConsumer" where
  "RollbackTask_run E s task =
     (case doRollback E s (task_opaque task) (task_vbid task) (task_rollbackSeqno task) of
        Inl f \<Rightarrow> Inl f
      | Inr (again, s') \<Rightarrow>
          if again then Inr (True, s')
          else Inr (False, s'\<lparr>rollbackCount := Suc (rollbackCount s')\<rparr>))"

subsection \<open>The contract of the specification, as definitions\<close>

text \<open>
  The boundary contract of the message calls (specification 4.1), for a call that
  delivered \<open>response\<close> of byte cost \<open>cost\<close> to the stream \<open>st\<close> and ended with \<open>out\<close>:
  a buffered message (TMPFAIL) surfaces as SUCCESS and leaves flow control as it was;
  every other result of messageReceived is returned as it is and flow control is
  credited once with the cost.
\<close>

definition credited_unless_buffered ::
  "('st, 'fc, 'eng) collaborators \<Rightarrow> ('st, 'fc, 'eng) DcpConsumer \<Rightarrow> 'st \<Rightarrow> DcpResponse
   \<Rightarrow> 32 word \<Rightarrow> ENGINE_ERROR_CODE \<times> ('st, 'fc, 'eng) DcpConsumer \<Rightarrow> bool" where
  "credited_unless_buffered E s st response cost out =
     (if fst (messageReceived E st response) = ENGINE_TMPFAIL
      then fst out = ENGINE_SUCCESS \<and> flowControl (snd out) = flowControl s
      else fst out = fst (messageReceived E st response)
         \<and> flowControl (snd out) = incrFreedBytes E (flowControl s) cost)"

text \<open>
  The outbound pump of specification 4.2: the sources in their fixed order, each a
  function from the consumer to an engine result and the consumer it leaves, and the
  rule that the first source not reporting FAILED decides.
\<close>

definition flowControlSource ::
  "('st, 'fc, 'eng) collaborators \<Rightarrow> ('st, 'fc, 'eng) DcpConsumer
   \<Rightarrow> ENGINE_ERROR_CODE \<times> ('st, 'fc, 'eng) DcpConsumer" where
  "flowControlSource E s =
     (case handleFlowCtl E (flowControl s) of (ret, fc) \<Rightarrow> (ret, s\<lparr>flowControl := fc\<rparr>))"

definition outboundSources ::
  "('st, 'fc, 'eng) collaborators \<Rightarrow> 32 word
   \<Rightarrow> (('st, 'fc, 'eng) DcpConsumer \<Rightarrow> ENGINE_ERROR_CODE \<times> ('st, 'fc, 'eng) DcpConsumer) list"
  where
  "outboundSources E now =
     [flowControlSource E, handleNoop E now, handlePriority E, handleExtMetaData E,
      handleValueCompression E, supportCursorDropping E]"

fun firstNotFailed ::
  "('s \<Rightarrow> ENGINE_ERROR_CODE \<times> 's) list \<Rightarrow> 's \<Rightarrow> ENGINE_ERROR_CODE \<times> 's + 's" where
  "firstNotFailed [] s = Inr s"
| "firstNotFailed (source # rest) s =
     (case source s of
        (ret, s') \<Rightarrow> if ret \<noteq> ENGINE_FAILED then Inl (ret, s') else firstNotFailed rest s')"


subsection \<open>A concrete set of collaborators\<close>

text \<open>
  To run the consumer on concrete inputs the parameters need values. \<open>stub_stream\<close>
  stands in for PassiveStream: it keeps the opaque and the state the consumer asks
  for, records what it was given, answers messageReceived with the code \<open>st_answer\<close>
  it was set up with and hands out the outbound responses queued in \<open>st_readyQ\<close>. A new stream
  is pending, buffers every message (TMPFAIL) and has its stream request queued; setDead
  makes it dead; acceptStream queues the add-stream response and makes the stream reading
  on status 0, dead otherwise.
\<close>

record stub_stream =
  st_opaque :: "32 word"
  st_state :: stream_state_t
  st_answer :: ENGINE_ERROR_CODE
  st_received :: "DcpResponse list"
  st_readyQ :: "DcpResponse list"

text \<open>
  \<open>stub_engine\<close> stands in for the engine: its partitions, the code its store answers
  a rollback with, the rollbacks requested and the failover logs installed.
\<close>

record stub_engine =
  eng_vbuckets :: "16 word \<Rightarrow> VBucket option"
  eng_rollback_answer :: ENGINE_ERROR_CODE
  eng_rollbacks :: "(16 word \<times> 64 word) list"
  eng_failover_logs :: "(16 word \<times> 8 word list) list"

definition stub_new :: "PassiveStream_args \<Rightarrow> stub_stream" where
  "stub_new a =
     \<lparr> st_opaque = ps_opaque a, st_state = STREAM_PENDING, st_answer = ENGINE_TMPFAIL,
       st_received = [],
       st_readyQ = [StreamRequest (ps_vb a) (ps_opaque a) (ps_flags a) (ps_start_seqno a)
                      (ps_end_seqno a) (ps_vb_uuid a) (ps_snap_start_seqno a)
                      (ps_snap_end_seqno a)] \<rparr>"

definition stub_next :: "stub_stream \<Rightarrow> DcpResponse option \<times> stub_stream" where
  "stub_next st =
     (case filter (\<lambda>r. outboundEvent (getEvent r)) (st_readyQ st) of
        [] \<Rightarrow> (None, st\<lparr>st_readyQ := []\<rparr>)
      | r # rs \<Rightarrow> (Some r, st\<lparr>st_readyQ := rs\<rparr>))"

definition stub_reconnect ::
  "stub_stream \<Rightarrow> VBucket \<Rightarrow> 32 word \<Rightarrow> 64 word \<Rightarrow> stub_stream" where
  "stub_reconnect st vb opaque start_seqno =
     st\<lparr>st_readyQ := st_readyQ st @
        [StreamRequest 0 (st_opaque st) 0 start_seqno (- 1) (getLatestEntry_vb_uuid vb)
           start_seqno start_seqno]\<rparr>"

definition stub_accept :: "stub_stream \<Rightarrow> 16 word \<Rightarrow> 32 word \<Rightarrow> stub_stream" where
  "stub_accept st status add_opaque =
     st\<lparr>st_state := (if status = 0 then STREAM_READING else STREAM_DEAD),
        st_readyQ := st_readyQ st @ [AddStreamResponse add_opaque (st_opaque st) status]\<rparr>"

text \<open>
  The flow-control member is its counter of freed bytes, with no acknowledgement due.
  The host accepts every outbound message. Extended metadata is valid when its first
  byte is the version 1. The sizes, opcodes and status values are those of the headers
  of ep-engine and memcached.
\<close>

definition stubs :: "(stub_stream, 32 word, stub_engine) collaborators" where
  "stubs =
     \<lparr> PassiveStream_new = stub_new,
       getOpaque = st_opaque,
       isActive = (\<lambda>st. st_state st \<noteq> STREAM_DEAD),
       getState = st_state,
       messageReceived = (\<lambda>st r. (st_answer st, st\<lparr>st_received := st_received st @ [r]\<rparr>)),
       stream_next = stub_next,
       setDead = (\<lambda>st reason. (0, st\<lparr>st_state := STREAM_DEAD\<rparr>)),
       reconnectStream = stub_reconnect,
       acceptStream = stub_accept,
       incrFreedBytes = (\<lambda>fc n. fc + n),
       handleFlowCtl = (\<lambda>fc. (ENGINE_FAILED, fc)),
       getVBucket = eng_vbuckets,
       rollback = (\<lambda>e vb seqno.
          (eng_rollback_answer e, e\<lparr>eng_rollbacks := eng_rollbacks e @ [(vb, seqno)]\<rparr>)),
       replaceFailoverLog = (\<lambda>e vb body bodylen.
          e\<lparr>eng_failover_logs := eng_failover_logs e @ [(vb, take (unat bodylen) body)]\<rparr>),
       scheduleVBSnapshot = (\<lambda>e vb. e),
       control = (\<lambda>opaque key val. ENGINE_SUCCESS),
       add_stream_rsp = (\<lambda>opaque streamOpaque status. ENGINE_SUCCESS),
       stream_req = (\<lambda>opaque vb flags a b c d e. ENGINE_SUCCESS),
       set_vbucket_state_rsp = (\<lambda>opaque status. ENGINE_SUCCESS),
       marker_rsp = (\<lambda>opaque status. ENGINE_SUCCESS),
       new_ExtendedMetaData = (\<lambda>meta. Some \<lparr> emd_bytes = meta,
          emd_status = (if take 1 meta = [1] then ENGINE_SUCCESS else ENGINE_EINVAL) \<rparr>),
       new_response_throws = (\<lambda>r. False),
       mutationBaseMsgBytes = 55,
       deletionBaseMsgBytes = 42,
       StreamEndResponse_baseMsgBytes = 28,
       SnapshotMarker_baseMsgBytes = 44,
       SetVBucketState_baseMsgBytes = 25,
       PROTOCOL_BINARY_CMD_DCP_STREAM_REQ = 0x53,
       PROTOCOL_BINARY_CMD_DCP_BUFFER_ACKNOWLEDGEMENT = 0x5d,
       PROTOCOL_BINARY_CMD_DCP_CONTROL = 0x5e,
       PROTOCOL_BINARY_RESPONSE_ROLLBACK = 0x23,
       ENGINE_SUCCESS_value = 0 \<rparr>"

text \<open>A replica partition with an empty history.\<close>

definition replica_vb :: VBucket where
  "replica_vb =
     \<lparr> vb_getState = vbucket_state_replica,
       getSnapshotInfo = \<lparr> info_start = 0, range_start = 0, range_end = 0 \<rparr>,
       getLatestEntry_vb_uuid = 0x1111, getHighSeqno = 0 \<rparr>"

definition stub_engine0 :: stub_engine where
  "stub_engine0 =
     \<lparr> eng_vbuckets = (\<lambda>vb. if vb = 0 \<or> vb = 1 then Some replica_vb else None),
       eng_rollback_answer = ENGINE_SUCCESS, eng_rollbacks = [], eng_failover_logs = [] \<rparr>"

text \<open>
  A consumer created at time 0 with noop enabled and an interval of 180 seconds, and the
  same consumer after its six negotiation messages have gone out.
\<close>

definition config0 :: Configuration where
  "config0 = \<lparr> getDcpNoopInterval = 180, isDcpEnableNoop = True,
               isDcpValueCompressionEnabled = True \<rparr>"

definition consumer0 :: "(stub_stream, 32 word, stub_engine) DcpConsumer" where
  "consumer0 = DcpConsumer_new config0 0 stub_engine0 0"

definition negotiated0 :: "(stub_stream, 32 word, stub_engine) DcpConsumer" where
  "negotiated0 =
     consumer0\<lparr>opaqueCounter := 6, pendingEnableNoop := False,
       pendingSendNoopInterval := False, pendingSetPriority := False,
       pendingEnableExtMetaData := False, pendingEnableValueCompression := False,
       pendingSupportCursorDropping := False\<rparr>"

text \<open>A stream of partition 0 with opaque 7 in state reading.\<close>

definition reading_stream :: "ENGINE_ERROR_CODE \<Rightarrow> stub_stream" where
  "reading_stream answer =
     \<lparr> st_opaque = 7, st_state = STREAM_READING, st_answer = answer, st_received = [],
       st_readyQ = [] \<rparr>"

definition with_stream ::
  "ENGINE_ERROR_CODE \<Rightarrow> (stub_stream, 32 word, stub_engine) DcpConsumer" where
  "with_stream answer =
     negotiated0\<lparr>streams := (\<lambda>vb. if vb = 0 then Some (reading_stream answer) else None),
       opaqueCounter := 7\<rparr>"

text \<open>
  The consumer after \<^verbatim>\<open>addStream(1, 0, 0)\<close>: a pending stream of partition 0 with
  the new opaque 7, its stream request queued, partition 0 ready.
\<close>

definition pending_stream :: stub_stream where
  "pending_stream =
     \<lparr> st_opaque = 7, st_state = STREAM_PENDING, st_answer = ENGINE_TMPFAIL,
       st_received = [],
       st_readyQ = [StreamRequest 0 7 0 0 (- 1) 0x1111 0 0] \<rparr>"

definition pending0 :: "(stub_stream, 32 word, stub_engine) DcpConsumer" where
  "pending0 =
     negotiated0\<lparr>streams := (\<lambda>vb. if vb = 0 then Some pending_stream else None),
       opaqueCounter := 7, ready := [0],
       opaqueMap := (\<lambda>opaque. if opaque = 7 then Some (1, 0) else None)\<rparr>"

text \<open>A consumer created with noop disabled.\<close>

definition noop_disabled :: "(stub_stream, 32 word, stub_engine) DcpConsumer" where
  "noop_disabled = DcpConsumer_new (config0\<lparr>isDcpEnableNoop := False\<rparr>) 0 stub_engine0 0"

text \<open>The arguments of a mutation with a 4-byte key and an 8-byte value.\<close>

definition key4 :: "8 word list" where "key4 = [1, 2, 3, 4]"
definition value8 :: "8 word list" where "value8 = [1, 2, 3, 4, 5, 6, 7, 8]"

text \<open>
  The consumer of \<open>pending0\<close> over a store that answers a rollback with \<open>answer\<close>, the
  rollback task for partition 0 and seqno 42, and two responses to the stream request of
  opaque 7: a rollback to seqno 42, and the status 1 (key not found) with an empty body.
\<close>

definition rollback_answers ::
  "ENGINE_ERROR_CODE \<Rightarrow> (stub_stream, 32 word, stub_engine) DcpConsumer" where
  "rollback_answers answer = pending0\<lparr>engine := stub_engine0\<lparr>eng_rollback_answer := answer\<rparr>\<rparr>"

definition task42 :: RollbackTask where
  "task42 = \<lparr> task_opaque = 7, task_vbid = 0, task_rollbackSeqno = 42 \<rparr>"

definition rollback_response :: protocol_binary_response where
  "rollback_response =
     \<lparr> resp_opcode = 0x53, resp_opaque = 7, resp_status = 0x23, resp_bodylen = 8,
       resp_body = [0, 0, 0, 0, 0, 0, 0, 0x2A] \<rparr>"

definition error_response :: protocol_binary_response where
  "error_response =
     \<lparr> resp_opcode = 0x53, resp_opaque = 7, resp_status = 1, resp_bodylen = 0,
       resp_body = [] \<rparr>"

text \<open>The connection of \<open>negotiated0\<close> flagged for disconnect.\<close>

definition disconnected0 :: "(stub_stream, 32 word, stub_engine) DcpConsumer" where
  "disconnected0 = negotiated0\<lparr>doDisconnect := True\<rparr>"

text \<open>
  Consumers for the ready list: partition 1 ready without a stream, and partition 0 ready
  with a stream that has nothing to send.
\<close>

definition gone0 :: "(stub_stream, 32 word, stub_engine) DcpConsumer" where
  "gone0 = negotiated0\<lparr>ready := [1]\<rparr>"

definition idle0 :: "(stub_stream, 32 word, stub_engine) DcpConsumer" where
  "idle0 = (with_stream ENGINE_SUCCESS)\<lparr>ready := [0]\<rparr>"

section \<open>Properties\<close>

subsection \<open>Facts about the concrete collaborators\<close>

lemma negotiated0_connected: "\<not> doDisconnect negotiated0"
  by (simp add: negotiated0_def consumer0_def DcpConsumer_new_def)

lemma with_stream_connected: "\<not> doDisconnect (with_stream answer)"
  by (simp add: with_stream_def negotiated0_connected)

lemma with_stream_stream: "streams (with_stream answer) 0 = Some (reading_stream answer)"
  by (simp add: with_stream_def)

lemma reading_stream_live:
  "getOpaque stubs (reading_stream answer) = 7 \<and> isActive stubs (reading_stream answer)"
  by (simp add: stubs_def reading_stream_def)

lemma stubs_messageReceived:
  "messageReceived stubs (reading_stream answer) r =
     (answer, (reading_stream answer)\<lparr>st_received := [r]\<rparr>)"
  by (simp add: stubs_def reading_stream_def)

lemma stubs_allocates: "\<not> new_response_throws stubs r"
  by (simp add: stubs_def)

lemma with_stream_flowControl: "flowControl (with_stream answer) = 0"
  by (simp add: with_stream_def negotiated0_def consumer0_def DcpConsumer_new_def)

lemma stubs_sizes:
  "mutationBaseMsgBytes stubs = 55" "deletionBaseMsgBytes stubs = 42"
  "StreamEndResponse_baseMsgBytes stubs = 28" "SnapshotMarker_baseMsgBytes stubs = 44"
  "SetVBucketState_baseMsgBytes stubs = 25"
  by (simp_all add: stubs_def)

lemma stubs_incrFreedBytes: "incrFreedBytes stubs fc n = fc + n"
  by (simp add: stubs_def)

lemma stubs_no_metadata: "makeExtendedMetaData stubs [] 0 = Inr None"
  by (simp add: makeExtendedMetaData_def)

subsection \<open>Message calls\<close>

lemma flowControl_wakeProcesser: "flowControl (wakeProcesser err s) = flowControl s"
  by (simp add: wakeProcesser_def)

lemma afterBlock_deliver:
  assumes "\<not> new_response_throws E response"
  shows "credited_unless_buffered E s st response cost
           (afterBlock E cost (deliver E s vbucket st response))"
  using assms
  by (simp add: credited_unless_buffered_def afterBlock_def deliver_def
      flowControl_wakeProcesser split: prod.splits)

text \<open>
  C8. When the connection is not flagged for disconnect, snapshotMarker with
  start_seqno above end_seqno returns INVALID and leaves the whole consumer, its streams
  included, as it was: nothing is delivered. A marker whose start and end are equal
  passes the validation: without a live matching stream it gets KEY_ENOENT, with one it
  is delivered to the stream through messageReceived and the call returns the stream's
  answer, a buffered marker (TMPFAIL) as SUCCESS.
\<close>

theorem snapshotMarker_validates_range:
  assumes "\<not> doDisconnect s"
  shows "(end_seqno < start_seqno \<longrightarrow>
            snapshotMarker E s opaque vbucket start_seqno end_seqno flags = (ENGINE_EINVAL, s))
       \<and> (\<not> liveStream E (streams s vbucket) opaque \<longrightarrow>
            fst (snapshotMarker E s opaque vbucket x x flags) = ENGINE_KEY_ENOENT)
       \<and> (streams s vbucket = Some st \<and> getOpaque E st = opaque \<and> isActive E st
            \<and> \<not> new_response_throws E (SnapshotMarker opaque vbucket x x flags) \<longrightarrow>
            streams (snd (snapshotMarker E s opaque vbucket x x flags)) vbucket
              = Some (snd (messageReceived E st (SnapshotMarker opaque vbucket x x flags)))
            \<and> fst (snapshotMarker E s opaque vbucket x x flags)
              = (if fst (messageReceived E st (SnapshotMarker opaque vbucket x x flags))
                    = ENGINE_TMPFAIL
                 then ENGINE_SUCCESS
                 else fst (messageReceived E st (SnapshotMarker opaque vbucket x x flags))))"
  using assms
  by (auto simp: snapshotMarker_def afterBlock_def deliver_def wakeProcesser_def
      liveStream_def split: option.splits prod.splits)

theorem snapshotMarker_validates_range_witness:
  "\<not> doDisconnect (with_stream ENGINE_SUCCESS)
   \<and> (4 :: 64 word) < 5
   \<and> snapshotMarker stubs (with_stream ENGINE_SUCCESS) 7 0 5 4 0
       = (ENGINE_EINVAL, with_stream ENGINE_SUCCESS)
   \<and> \<not> liveStream stubs (streams (with_stream ENGINE_SUCCESS) 1) 7
   \<and> fst (snapshotMarker stubs (with_stream ENGINE_SUCCESS) 7 1 4 4 0) = ENGINE_KEY_ENOENT
   \<and> streams (with_stream ENGINE_SUCCESS) 0 = Some (reading_stream ENGINE_SUCCESS)
   \<and> getOpaque stubs (reading_stream ENGINE_SUCCESS) = 7
   \<and> isActive stubs (reading_stream ENGINE_SUCCESS)
   \<and> \<not> new_response_throws stubs (SnapshotMarker 7 0 4 4 0)
   \<and> streams (snd (snapshotMarker stubs (with_stream ENGINE_SUCCESS) 7 0 4 4 0)) 0
       = Some ((reading_stream ENGINE_SUCCESS)\<lparr>st_received := [SnapshotMarker 7 0 4 4 0]\<rparr>)
   \<and> fst (snapshotMarker stubs (with_stream ENGINE_SUCCESS) 7 0 4 4 0) = ENGINE_SUCCESS"
proof -
  note d = with_stream_connected [of ENGINE_SUCCESS]
  have a: "snapshotMarker stubs (with_stream ENGINE_SUCCESS) 7 0 5 4 0
       = (ENGINE_EINVAL, with_stream ENGINE_SUCCESS)"
    using snapshotMarker_validates_range [OF d, of 4 5 stubs 7 0 0] by simp
  have b: "\<not> liveStream stubs (streams (with_stream ENGINE_SUCCESS) 1) 7"
    by (simp add: with_stream_def liveStream_def)
  have c: "fst (snapshotMarker stubs (with_stream ENGINE_SUCCESS) 7 1 4 4 0)
       = ENGINE_KEY_ENOENT"
    using snapshotMarker_validates_range [OF d, of 4 5 stubs 7 1 0 4] b by simp
  show ?thesis
    using snapshotMarker_validates_range
            [OF d, of 4 5 stubs 7 0 0 4 "reading_stream ENGINE_SUCCESS"]
      d a b c with_stream_stream [of ENGINE_SUCCESS] reading_stream_live [of ENGINE_SUCCESS]
      stubs_messageReceived [of ENGINE_SUCCESS] stubs_allocates
    by simp
qed

text \<open>
  C10. A mutation, deletion or expiration that reaches a live matching stream (the
  connection not flagged for disconnect, bySeqno not zero) with nmeta above zero and
  extended metadata whose status is INVALID returns INVALID and leaves the whole consumer
  as it was: no message reaches the stream and no flow-control bytes are credited.
\<close>

theorem invalid_extended_metadata:
  assumes "\<not> doDisconnect s" and "bySeqno \<noteq> 0" and "streams s vbucket = Some st"
    and "getOpaque E st = opaque" and "isActive E st" and "0 < nmeta"
    and "new_ExtendedMetaData E meta = Some emd" and "emd_status emd = ENGINE_EINVAL"
  shows "mutation E s opaque key nkey val nvalue cas vbucket flags dtype locktime
           bySeqno revSeqno exptime nru meta nmeta = (ENGINE_EINVAL, s)
       \<and> deletion E s opaque key nkey cas vbucket bySeqno revSeqno meta nmeta
           = (ENGINE_EINVAL, s)
       \<and> expiration E s opaque key nkey cas vbucket bySeqno revSeqno meta nmeta
           = (ENGINE_EINVAL, s)"
  using assms
  by (simp add: mutation_def deletion_def expiration_def makeExtendedMetaData_def
      afterBlock_def)

theorem invalid_extended_metadata_witness:
  "\<not> doDisconnect (with_stream ENGINE_SUCCESS) \<and> (10 :: 64 word) \<noteq> 0
   \<and> streams (with_stream ENGINE_SUCCESS) 0 = Some (reading_stream ENGINE_SUCCESS)
   \<and> getOpaque stubs (reading_stream ENGINE_SUCCESS) = 7
   \<and> isActive stubs (reading_stream ENGINE_SUCCESS) \<and> (0 :: 16 word) < 2
   \<and> new_ExtendedMetaData stubs [9, 9]
       = Some \<lparr> emd_bytes = [9, 9], emd_status = ENGINE_EINVAL \<rparr>
   \<and> mutation stubs (with_stream ENGINE_SUCCESS) 7 key4 4 value8 8 0 0 0 0 0 10 1 0 0 [9, 9] 2
       = (ENGINE_EINVAL, with_stream ENGINE_SUCCESS)
   \<and> deletion stubs (with_stream ENGINE_SUCCESS) 7 key4 4 0 0 10 1 [9, 9] 2
       = (ENGINE_EINVAL, with_stream ENGINE_SUCCESS)
   \<and> expiration stubs (with_stream ENGINE_SUCCESS) 7 key4 4 0 0 10 1 [9, 9] 2
       = (ENGINE_EINVAL, with_stream ENGINE_SUCCESS)"
proof -
  have m: "new_ExtendedMetaData stubs [9, 9]
       = Some \<lparr> emd_bytes = [9, 9], emd_status = ENGINE_EINVAL \<rparr>"
    by (simp add: stubs_def)
  have l: "getOpaque stubs (reading_stream ENGINE_SUCCESS) = 7"
    "isActive stubs (reading_stream ENGINE_SUCCESS)"
    using reading_stream_live [of ENGINE_SUCCESS] by simp_all
  have n: "(10 :: 64 word) \<noteq> 0" "(0 :: 16 word) < 2" by simp_all
  show ?thesis
    using invalid_extended_metadata [OF with_stream_connected n(1) with_stream_stream l n(2) m,
        of key4 4 value8 8 0 0 0 0 1 0 0]
      with_stream_connected [of ENGINE_SUCCESS] with_stream_stream [of ENGINE_SUCCESS] l m
    by simp
qed

text \<open>
  C1, as amended. For every message call that reaches messageReceived (connection not
  flagged for disconnect, arguments valid, a live stream with the call's opaque, the
  response allocated): when messageReceived returns TMPFAIL the call returns SUCCESS and
  credits no bytes; for every other result, SUCCESS and failures alike, the call returns
  that result and credits flow control once with the message's byte cost.
\<close>

theorem message_calls_credit_unless_buffered:
  assumes "\<not> doDisconnect s" and "streams s vbucket = Some st"
    and "getOpaque E st = opaque" and "isActive E st"
  shows "(\<not> new_response_throws E (StreamEndResponse opaque flags vbucket) \<longrightarrow>
            credited_unless_buffered E s st (StreamEndResponse opaque flags vbucket)
              (StreamEndResponse_baseMsgBytes E) (streamEnd E s opaque vbucket flags))
       \<and> (start_seqno \<le> end_seqno
            \<and> \<not> new_response_throws E
                  (SnapshotMarker opaque vbucket start_seqno end_seqno flags) \<longrightarrow>
            credited_unless_buffered E s st
              (SnapshotMarker opaque vbucket start_seqno end_seqno flags)
              (SnapshotMarker_baseMsgBytes E)
              (snapshotMarker E s opaque vbucket start_seqno end_seqno flags))
       \<and> (\<not> new_response_throws E (SetVBucketState opaque vbucket state) \<longrightarrow>
            credited_unless_buffered E s st (SetVBucketState opaque vbucket state)
              (SetVBucketState_baseMsgBytes E) (setVBucketState E s opaque vbucket state))
       \<and> (bySeqno \<noteq> 0 \<and> makeExtendedMetaData E meta nmeta = Inr emd
            \<and> \<not> new_response_throws E (MutationResponse
                  (mutationItem key flags exptime val dtype cas bySeqno vbucket revSeqno)
                  opaque emd) \<longrightarrow>
            credited_unless_buffered E s st
              (MutationResponse
                 (mutationItem key flags exptime val dtype cas bySeqno vbucket revSeqno)
                 opaque emd)
              (mutationBaseMsgBytes E + ucast nkey + ucast nmeta + nvalue)
              (mutation E s opaque key nkey val nvalue cas vbucket flags dtype locktime
                 bySeqno revSeqno exptime nru meta nmeta))
       \<and> (bySeqno \<noteq> 0 \<and> makeExtendedMetaData E meta nmeta = Inr emd
            \<and> \<not> new_response_throws E (MutationResponse
                  (deletionItem key cas bySeqno vbucket revSeqno) opaque emd) \<longrightarrow>
            credited_unless_buffered E s st
              (MutationResponse (deletionItem key cas bySeqno vbucket revSeqno) opaque emd)
              (deletionBaseMsgBytes E + ucast nkey + ucast nmeta)
              (deletion E s opaque key nkey cas vbucket bySeqno revSeqno meta nmeta)
            \<and> credited_unless_buffered E s st
              (MutationResponse (deletionItem key cas bySeqno vbucket revSeqno) opaque emd)
              (deletionBaseMsgBytes E + ucast nkey + ucast nmeta)
              (expiration E s opaque key nkey cas vbucket bySeqno revSeqno meta nmeta))"
proof -
  have se: "\<not> new_response_throws E (StreamEndResponse opaque flags vbucket) \<Longrightarrow>
      credited_unless_buffered E s st (StreamEndResponse opaque flags vbucket)
        (StreamEndResponse_baseMsgBytes E) (streamEnd E s opaque vbucket flags)"
    using assms afterBlock_deliver [of E "StreamEndResponse opaque flags vbucket" s st]
    by (simp add: streamEnd_def)
  have sm: "start_seqno \<le> end_seqno \<Longrightarrow>
      \<not> new_response_throws E (SnapshotMarker opaque vbucket start_seqno end_seqno flags) \<Longrightarrow>
      credited_unless_buffered E s st
        (SnapshotMarker opaque vbucket start_seqno end_seqno flags)
        (SnapshotMarker_baseMsgBytes E)
        (snapshotMarker E s opaque vbucket start_seqno end_seqno flags)"
    using assms
      afterBlock_deliver [of E "SnapshotMarker opaque vbucket start_seqno end_seqno flags" s st]
    by (simp add: snapshotMarker_def not_less [symmetric])
  have sv: "\<not> new_response_throws E (SetVBucketState opaque vbucket state) \<Longrightarrow>
      credited_unless_buffered E s st (SetVBucketState opaque vbucket state)
        (SetVBucketState_baseMsgBytes E) (setVBucketState E s opaque vbucket state)"
    using assms afterBlock_deliver [of E "SetVBucketState opaque vbucket state" s st]
    by (simp add: setVBucketState_def)
  have mu: "bySeqno \<noteq> 0 \<Longrightarrow> makeExtendedMetaData E meta nmeta = Inr emd \<Longrightarrow>
      \<not> new_response_throws E (MutationResponse
          (mutationItem key flags exptime val dtype cas bySeqno vbucket revSeqno)
          opaque emd) \<Longrightarrow>
      credited_unless_buffered E s st
        (MutationResponse
           (mutationItem key flags exptime val dtype cas bySeqno vbucket revSeqno)
           opaque emd)
        (mutationBaseMsgBytes E + ucast nkey + ucast nmeta + nvalue)
        (mutation E s opaque key nkey val nvalue cas vbucket flags dtype locktime
           bySeqno revSeqno exptime nru meta nmeta)"
    using assms afterBlock_deliver [of E "MutationResponse
          (mutationItem key flags exptime val dtype cas bySeqno vbucket revSeqno)
          opaque emd" s st]
    by (simp add: mutation_def)
  have de: "bySeqno \<noteq> 0 \<Longrightarrow> makeExtendedMetaData E meta nmeta = Inr emd \<Longrightarrow>
      \<not> new_response_throws E (MutationResponse
          (deletionItem key cas bySeqno vbucket revSeqno) opaque emd) \<Longrightarrow>
      credited_unless_buffered E s st
        (MutationResponse (deletionItem key cas bySeqno vbucket revSeqno) opaque emd)
        (deletionBaseMsgBytes E + ucast nkey + ucast nmeta)
        (deletion E s opaque key nkey cas vbucket bySeqno revSeqno meta nmeta)"
    using assms afterBlock_deliver [of E "MutationResponse
          (deletionItem key cas bySeqno vbucket revSeqno) opaque emd" s st]
    by (simp add: deletion_def)
  from se sm sv mu de show ?thesis
    by (simp add: expiration_def)
qed

text \<open>
  C1 as stated fails where messageReceived answers with a failure other than
  TMPFAIL: a mutation with a 4-byte key and an 8-byte value that the stream rejects with
  ERANGE returns ERANGE and still credits its 55 + 4 + 8 bytes.
\<close>

theorem failed_message_is_credited:
  "fst (messageReceived stubs (reading_stream ENGINE_ERANGE)
          (MutationResponse (mutationItem key4 0 0 value8 0 0 10 0 1) 7 None)) = ENGINE_ERANGE
   \<and> fst (mutation stubs (with_stream ENGINE_ERANGE) 7 key4 4 value8 8 0 0 0 0 0 10 1 0 0 [] 0)
       = ENGINE_ERANGE
   \<and> flowControl (with_stream ENGINE_ERANGE) = 0
   \<and> flowControl
        (snd (mutation stubs (with_stream ENGINE_ERANGE) 7 key4 4 value8 8 0 0 0 0 0 10 1 0 0 [] 0))
       = 67"
  by (simp add: mutation_def afterBlock_def deliver_def wakeProcesser_def
      makeExtendedMetaData_def with_stream_connected with_stream_stream
      with_stream_flowControl stubs_messageReceived)
     (simp add: stubs_def reading_stream_def)

theorem message_calls_credit_unless_buffered_witness:
  "\<not> doDisconnect (with_stream ENGINE_TMPFAIL)
   \<and> streams (with_stream ENGINE_TMPFAIL) 0 = Some (reading_stream ENGINE_TMPFAIL)
   \<and> getOpaque stubs (reading_stream ENGINE_TMPFAIL) = 7
   \<and> isActive stubs (reading_stream ENGINE_TMPFAIL)
   \<and> (4 :: 64 word) \<le> 4 \<and> (10 :: 64 word) \<noteq> 0
   \<and> makeExtendedMetaData stubs [] 0 = Inr None
   \<and> streamEnd stubs (with_stream ENGINE_TMPFAIL) 7 0 0
       \<in> {r. fst r = ENGINE_SUCCESS \<and> flowControl (snd r) = 0}
   \<and> snapshotMarker stubs (with_stream ENGINE_TMPFAIL) 7 0 4 4 0
       \<in> {r. fst r = ENGINE_SUCCESS \<and> flowControl (snd r) = 0}
   \<and> setVBucketState stubs (with_stream ENGINE_TMPFAIL) 7 0 vbucket_state_replica
       \<in> {r. fst r = ENGINE_SUCCESS \<and> flowControl (snd r) = 0}
   \<and> mutation stubs (with_stream ENGINE_TMPFAIL) 7 key4 4 value8 8 0 0 0 0 0 10 1 0 0 [] 0
       \<in> {r. fst r = ENGINE_SUCCESS \<and> flowControl (snd r) = 0}
   \<and> deletion stubs (with_stream ENGINE_TMPFAIL) 7 key4 4 0 0 10 1 [] 0
       \<in> {r. fst r = ENGINE_SUCCESS \<and> flowControl (snd r) = 0}
   \<and> expiration stubs (with_stream ENGINE_TMPFAIL) 7 key4 4 0 0 10 1 [] 0
       \<in> {r. fst r = ENGINE_SUCCESS \<and> flowControl (snd r) = 0}
   \<and> \<not> doDisconnect (with_stream ENGINE_SUCCESS)
   \<and> streams (with_stream ENGINE_SUCCESS) 0 = Some (reading_stream ENGINE_SUCCESS)
   \<and> getOpaque stubs (reading_stream ENGINE_SUCCESS) = 7
   \<and> isActive stubs (reading_stream ENGINE_SUCCESS)
   \<and> streamEnd stubs (with_stream ENGINE_SUCCESS) 7 0 0
       \<in> {r. fst r = ENGINE_SUCCESS \<and> flowControl (snd r) = 28}
   \<and> snapshotMarker stubs (with_stream ENGINE_SUCCESS) 7 0 4 4 0
       \<in> {r. fst r = ENGINE_SUCCESS \<and> flowControl (snd r) = 44}
   \<and> setVBucketState stubs (with_stream ENGINE_SUCCESS) 7 0 vbucket_state_replica
       \<in> {r. fst r = ENGINE_SUCCESS \<and> flowControl (snd r) = 25}
   \<and> mutation stubs (with_stream ENGINE_SUCCESS) 7 key4 4 value8 8 0 0 0 0 0 10 1 0 0 [] 0
       \<in> {r. fst r = ENGINE_SUCCESS \<and> flowControl (snd r) = 67}
   \<and> deletion stubs (with_stream ENGINE_SUCCESS) 7 key4 4 0 0 10 1 [] 0
       \<in> {r. fst r = ENGINE_SUCCESS \<and> flowControl (snd r) = 46}
   \<and> expiration stubs (with_stream ENGINE_SUCCESS) 7 key4 4 0 0 10 1 [] 0
       \<in> {r. fst r = ENGINE_SUCCESS \<and> flowControl (snd r) = 46}"
proof -
  have live: "getOpaque stubs (reading_stream a) = 7" "isActive stubs (reading_stream a)" for a
    using reading_stream_live [of a] by simp_all
  have n: "(4 :: 64 word) \<le> 4" "(10 :: 64 word) \<noteq> 0" by simp_all
  have buffered:
    "streamEnd stubs (with_stream ENGINE_TMPFAIL) 7 0 0
       \<in> {r. fst r = ENGINE_SUCCESS \<and> flowControl (snd r) = 0}
     \<and> snapshotMarker stubs (with_stream ENGINE_TMPFAIL) 7 0 4 4 0
       \<in> {r. fst r = ENGINE_SUCCESS \<and> flowControl (snd r) = 0}
     \<and> setVBucketState stubs (with_stream ENGINE_TMPFAIL) 7 0 vbucket_state_replica
       \<in> {r. fst r = ENGINE_SUCCESS \<and> flowControl (snd r) = 0}
     \<and> mutation stubs (with_stream ENGINE_TMPFAIL) 7 key4 4 value8 8 0 0 0 0 0 10 1 0 0 [] 0
       \<in> {r. fst r = ENGINE_SUCCESS \<and> flowControl (snd r) = 0}
     \<and> deletion stubs (with_stream ENGINE_TMPFAIL) 7 key4 4 0 0 10 1 [] 0
       \<in> {r. fst r = ENGINE_SUCCESS \<and> flowControl (snd r) = 0}
     \<and> expiration stubs (with_stream ENGINE_TMPFAIL) 7 key4 4 0 0 10 1 [] 0
       \<in> {r. fst r = ENGINE_SUCCESS \<and> flowControl (snd r) = 0}"
    using message_calls_credit_unless_buffered
            [where E = stubs and s = "with_stream ENGINE_TMPFAIL" and vbucket = 0
               and st = "reading_stream ENGINE_TMPFAIL" and opaque = 7 and flags = 0
               and start_seqno = 4 and end_seqno = 4 and state = vbucket_state_replica
               and bySeqno = 10 and meta = "[]" and nmeta = 0 and emd = None and key = key4
               and exptime = 0 and val = value8 and dtype = 0 and cas = 0
               and revSeqno = 1 and nkey = 4 and nvalue = 8 and locktime = 0 and nru = 0,
             OF with_stream_connected with_stream_stream live]
    by (simp add: credited_unless_buffered_def stubs_messageReceived stubs_allocates
        stubs_no_metadata with_stream_flowControl)
  have applied:
    "streamEnd stubs (with_stream ENGINE_SUCCESS) 7 0 0
       \<in> {r. fst r = ENGINE_SUCCESS \<and> flowControl (snd r) = 28}
     \<and> snapshotMarker stubs (with_stream ENGINE_SUCCESS) 7 0 4 4 0
       \<in> {r. fst r = ENGINE_SUCCESS \<and> flowControl (snd r) = 44}
     \<and> setVBucketState stubs (with_stream ENGINE_SUCCESS) 7 0 vbucket_state_replica
       \<in> {r. fst r = ENGINE_SUCCESS \<and> flowControl (snd r) = 25}
     \<and> mutation stubs (with_stream ENGINE_SUCCESS) 7 key4 4 value8 8 0 0 0 0 0 10 1 0 0 [] 0
       \<in> {r. fst r = ENGINE_SUCCESS \<and> flowControl (snd r) = 67}
     \<and> deletion stubs (with_stream ENGINE_SUCCESS) 7 key4 4 0 0 10 1 [] 0
       \<in> {r. fst r = ENGINE_SUCCESS \<and> flowControl (snd r) = 46}
     \<and> expiration stubs (with_stream ENGINE_SUCCESS) 7 key4 4 0 0 10 1 [] 0
       \<in> {r. fst r = ENGINE_SUCCESS \<and> flowControl (snd r) = 46}"
    using message_calls_credit_unless_buffered
            [where E = stubs and s = "with_stream ENGINE_SUCCESS" and vbucket = 0
               and st = "reading_stream ENGINE_SUCCESS" and opaque = 7 and flags = 0
               and start_seqno = 4 and end_seqno = 4 and state = vbucket_state_replica
               and bySeqno = 10 and meta = "[]" and nmeta = 0 and emd = None and key = key4
               and exptime = 0 and val = value8 and dtype = 0 and cas = 0
               and revSeqno = 1 and nkey = 4 and nvalue = 8 and locktime = 0 and nru = 0,
             OF with_stream_connected with_stream_stream live]
    by (simp add: credited_unless_buffered_def stubs_messageReceived stubs_allocates
        stubs_no_metadata with_stream_flowControl stubs_sizes stubs_incrFreedBytes)
  show ?thesis
    using buffered applied with_stream_connected with_stream_stream live n stubs_no_metadata
    by simp
qed

subsection \<open>Disconnect\<close>

text \<open>
  Once the disconnect flag is set, addStream, closeStream, streamEnd, mutation, deletion,
  expiration, snapshotMarker, setVBucketState, flush and handleResponse return
  DISCONNECT, and step returns DISCONNECT after recording the time. noop is the one
  inbound call that does not read the flag.
\<close>

lemma disconnect_is_sticky:
  assumes "doDisconnect s"
  shows "fst (addStream E s opaque vbucket flags) = ENGINE_DISCONNECT
       \<and> fst (closeStream E s opaque vbucket) = ENGINE_DISCONNECT
       \<and> fst (streamEnd E s opaque vbucket flags) = ENGINE_DISCONNECT
       \<and> fst (mutation E s opaque key nkey val nvalue cas vbucket flags dtype locktime
                bySeqno revSeqno exptime nru meta nmeta) = ENGINE_DISCONNECT
       \<and> fst (deletion E s opaque key nkey cas vbucket bySeqno revSeqno meta nmeta)
           = ENGINE_DISCONNECT
       \<and> fst (expiration E s opaque key nkey cas vbucket bySeqno revSeqno meta nmeta)
           = ENGINE_DISCONNECT
       \<and> fst (snapshotMarker E s opaque vbucket start_seqno end_seqno flags)
           = ENGINE_DISCONNECT
       \<and> fst (setVBucketState E s opaque vbucket state) = ENGINE_DISCONNECT
       \<and> fst (flush s opaque vbucket) = ENGINE_DISCONNECT
       \<and> handleResponse E s resp = Inr (ENGINE_DISCONNECT, s)
       \<and> step E now s = Inr (ENGINE_DISCONNECT, s\<lparr>lastWalkTime := now\<rparr>)
       \<and> noop s now opaque = (ENGINE_SUCCESS, s\<lparr>lastNoopTime := now\<rparr>)"
  using assms
  by (simp add: addStream_def closeStream_def streamEnd_def mutation_def deletion_def
      expiration_def snapshotMarker_def setVBucketState_def flush_def handleResponse_def
      step_def noop_def)

lemma disconnected0_flag: "doDisconnect disconnected0"
  by (simp add: disconnected0_def)

lemma disconnect_is_sticky_on_disconnected0:
  "doDisconnect disconnected0
   \<and> fst (addStream stubs disconnected0 1 0 0) = ENGINE_DISCONNECT
   \<and> fst (closeStream stubs disconnected0 1 0) = ENGINE_DISCONNECT
   \<and> fst (streamEnd stubs disconnected0 1 0 0) = ENGINE_DISCONNECT
   \<and> fst (mutation stubs disconnected0 1 key4 4 value8 8 0 0 0 0 0 10 1 0 0 [] 0)
       = ENGINE_DISCONNECT
   \<and> fst (deletion stubs disconnected0 1 key4 4 0 0 10 1 [] 0) = ENGINE_DISCONNECT
   \<and> fst (expiration stubs disconnected0 1 key4 4 0 0 10 1 [] 0) = ENGINE_DISCONNECT
   \<and> fst (snapshotMarker stubs disconnected0 1 0 4 5 0) = ENGINE_DISCONNECT
   \<and> fst (setVBucketState stubs disconnected0 1 0 vbucket_state_replica) = ENGINE_DISCONNECT
   \<and> fst (flush disconnected0 1 0) = ENGINE_DISCONNECT
   \<and> handleResponse stubs disconnected0 rollback_response
       = Inr (ENGINE_DISCONNECT, disconnected0)
   \<and> step stubs 5 disconnected0 = Inr (ENGINE_DISCONNECT, disconnected0\<lparr>lastWalkTime := 5\<rparr>)
   \<and> noop disconnected0 5 1 = (ENGINE_SUCCESS, disconnected0\<lparr>lastNoopTime := 5\<rparr>)"
  using disconnect_is_sticky
          [where s = disconnected0 and E = stubs and opaque = 1 and vbucket = 0 and flags = 0
             and key = key4 and nkey = 4 and val = value8 and nvalue = 8 and cas = 0
             and dtype = 0 and locktime = 0 and bySeqno = 10 and revSeqno = 1
             and exptime = 0 and nru = 0 and meta = "[]" and nmeta = 0
             and start_seqno = 4 and end_seqno = 5 and state = vbucket_state_replica
             and resp = rollback_response and now = 5,
           OF disconnected0_flag]
    disconnected0_flag
  by simp

text \<open>
  C2. Every inbound call but one starts by returning DISCONNECT when the disconnect flag
  is set (\<open>disconnect_is_sticky\<close>), the two-line flush included. noop misses the
  test: on the connection \<open>disconnected0\<close>, flagged for disconnect, it returns SUCCESS
  where the claim says DISCONNECT.
\<close>

theorem noop_ignores_disconnect:
  "doDisconnect disconnected0 \<and> fst (noop disconnected0 5 1) = ENGINE_SUCCESS
   \<and> fst (noop disconnected0 5 1) \<noteq> ENGINE_DISCONNECT"
  by (simp add: noop_def disconnected0_def)

subsection \<open>The noop window\<close>

lemma noop_window_exceeded:
  fixes d i :: "32 word"
  assumes "2 * unat i < unat d"
  shows "i * 2 < d"
proof -
  have "unat (i * 2) \<le> unat i * 2"
    by (simp add: unat_word_ariths)
  with assms show ?thesis
    by (simp add: word_less_nat_alt)
qed

text \<open>
  C3, as amended. Whenever step reaches the liveness check of handleNoop (connection not
  flagged for disconnect, no flow-control acknowledgement due, neither noop control
  message pending) and the time since the last noop exceeds twice the noop interval, step
  returns DISCONNECT. Nothing in the check asks whether noop was configured: the flags
  set from dcp_enable_noop only say whether the two control messages are still to be
  sent.
\<close>

theorem noop_timeout_disconnects:
  assumes "\<not> doDisconnect s"
    and "fst (handleFlowCtl E (flowControl s)) = ENGINE_FAILED"
    and "\<not> pendingEnableNoop s" and "\<not> pendingSendNoopInterval s"
    and "2 * unat (noopInterval s) < unat (now - lastNoopTime s)"
  shows "step E now s =
           Inr (ENGINE_DISCONNECT,
                s\<lparr>lastWalkTime := now, flowControl := snd (handleFlowCtl E (flowControl s))\<rparr>)"
proof -
  obtain ret fc where hf: "handleFlowCtl E (flowControl s) = (ret, fc)"
    by (cases "handleFlowCtl E (flowControl s)")
  with assms(2) have ret: "ret = ENGINE_FAILED" by simp
  have late: "noopInterval s * 2 < now - lastNoopTime s"
    using assms(5) by (rule noop_window_exceeded)
  show ?thesis
    using assms(1,3,4) late
    by (simp add: step_def Let_def hf ret handleNoop_def wantMore_def)
qed

theorem noop_timeout_disconnects_witness:
  "\<not> doDisconnect negotiated0
   \<and> fst (handleFlowCtl stubs (flowControl negotiated0)) = ENGINE_FAILED
   \<and> \<not> pendingEnableNoop negotiated0 \<and> \<not> pendingSendNoopInterval negotiated0
   \<and> 2 * unat (noopInterval negotiated0) < unat (361 - lastNoopTime negotiated0)
   \<and> step stubs 361 negotiated0 = Inr (ENGINE_DISCONNECT, negotiated0\<lparr>lastWalkTime := 361\<rparr>)"
proof -
  have h: "\<not> doDisconnect negotiated0"
    "fst (handleFlowCtl stubs (flowControl negotiated0)) = ENGINE_FAILED"
    "\<not> pendingEnableNoop negotiated0" "\<not> pendingSendNoopInterval negotiated0"
    "2 * unat (noopInterval negotiated0) < unat (361 - lastNoopTime negotiated0)"
    by (simp_all add: negotiated0_def consumer0_def config0_def DcpConsumer_new_def stubs_def)
  have fc: "snd (handleFlowCtl stubs (flowControl negotiated0)) = flowControl negotiated0"
    by (simp add: stubs_def)
  show ?thesis
    using noop_timeout_disconnects [OF h] h fc by simp
qed

text \<open>
  C3 as stated fails for a consumer created with dcp_enable_noop off: with an
  interval of 180 seconds and no noop received, its step at second 361 returns
  DISCONNECT.
\<close>

theorem noop_timeout_without_negotiation:
  "\<not> isDcpEnableNoop (config0\<lparr>isDcpEnableNoop := False\<rparr>)
   \<and> step stubs 361 noop_disabled = Inr (ENGINE_DISCONNECT, noop_disabled\<lparr>lastWalkTime := 361\<rparr>)"
  by (simp add: noop_disabled_def config0_def DcpConsumer_new_def step_def handleNoop_def
      stubs_def wantMore_def Let_def)

subsection \<open>Responses to a stream request\<close>

lemma pending0_connected: "\<not> doDisconnect pending0"
  by (simp add: pending0_def negotiated0_connected)

lemma pending0_opaque: "opaqueMap pending0 7 = Some (1, 0)"
  by (simp add: pending0_def)

lemma pending0_valid: "isValidOpaque stubs pending0 7 0"
  by (simp add: isValidOpaque_def pending0_def pending_stream_def stubs_def)

lemma rollback_response_fields:
  "resp_opaque rollback_response = 7"
  "resp_opcode rollback_response = PROTOCOL_BINARY_CMD_DCP_STREAM_REQ stubs"
  "resp_status rollback_response = PROTOCOL_BINARY_RESPONSE_ROLLBACK stubs"
  "resp_bodylen rollback_response = 8"
  by (simp_all add: rollback_response_def stubs_def)

lemma rollback_response_seqno: "ntohll_body (resp_body rollback_response) = 42"
  by (simp add: rollback_response_def ntohll_body_def)

lemma stubs_rollback:
  "rollback stubs (engine (rollback_answers answer)) 0 42 =
     (answer, stub_engine0\<lparr>eng_rollback_answer := answer, eng_rollbacks := [(0, 42)]\<rparr>)"
  by (simp add: rollback_answers_def stubs_def stub_engine0_def)

lemma unat_ucast_bodylen:
  fixes b :: "32 word"
  shows "unat (ucast b :: 64 word) = unat b"
proof -
  have "unat b < 2 ^ 32" using unsigned_less [of b] by simp
  then have "unat b < 2 ^ 64" by simp
  then show ?thesis
    by (simp add: unsigned_ucast_eq take_bit_nat_eq_self)
qed

lemma bodylen_is_8:
  fixes b :: "32 word"
  shows "((ucast b :: 64 word) = 8) = (b = 8)"
  by (simp add: word_unat_eq_iff unat_ucast_bodylen)

lemma bodylen_is_0:
  fixes b :: "32 word"
  shows "((ucast b :: 64 word) = 0) = (b = 0)"
  by (simp add: word_unat_eq_iff unat_ucast_bodylen)

lemma bodylen_mod_16:
  fixes b :: "32 word"
  shows "((ucast b :: 64 word) mod 16 = 0) = (unat b mod 16 = 0)"
  by (simp add: word_unat_eq_iff unat_mod unat_ucast_bodylen)

lemma ucast_ucast_bodylen:
  fixes b :: "32 word"
  shows "(ucast (ucast b :: 64 word) :: 32 word) = b"
  by (simp add: ucast_up_ucast_id is_up)

lemma streamAccepted_failure_status:
  assumes "status \<noteq> ENGINE_SUCCESS_value E"
  shows "\<exists>s'. streamAccepted E s opaque status body bodylen = Inr s'"
  using assms by (simp add: streamAccepted_def split: option.splits prod.splits)

text \<open>
  C4, as amended. A ROLLBACK response with an 8-byte body to a stream request of a known
  opaque schedules one rollback task carrying the opaque, the partition and the seqno
  the body holds in big-endian order. A run of the task calls the store's rollback once,
  with that partition and seqno, before anything else. On TMPFAIL the run asks to be
  rescheduled (true) and the counter stays. On NOT_MY_VBUCKET it gives up (false). On
  SUCCESS it reads the partition after the rollback and reconnects the stream from its
  high seqno, and returns false. The rollback counter is incremented whenever the run
  returns false: on SUCCESS and on NOT_MY_VBUCKET.
\<close>

theorem rollback_round_trip:
  "(\<not> doDisconnect s \<and> opaqueMap s (resp_opaque resp) = Some (add_opaque, vbid)
      \<and> isValidOpaque E s (resp_opaque resp) vbid
      \<and> resp_opcode resp = PROTOCOL_BINARY_CMD_DCP_STREAM_REQ E
      \<and> resp_status resp = PROTOCOL_BINARY_RESPONSE_ROLLBACK E
      \<and> resp_bodylen resp = 8 \<longrightarrow>
      handleResponse E s resp =
        Inr (ENGINE_SUCCESS,
             s\<lparr>writerTasks := writerTasks s @
                 [\<lparr> task_opaque = resp_opaque resp, task_vbid = vbid,
                    task_rollbackSeqno = ntohll_body (resp_body resp) \<rparr>]\<rparr>))
   \<and> (fst (rollback E (engine s) (task_vbid task) (task_rollbackSeqno task)) = ENGINE_TMPFAIL
      \<longrightarrow> RollbackTask_run E s task =
        Inr (True, s\<lparr>engine :=
               snd (rollback E (engine s) (task_vbid task) (task_rollbackSeqno task))\<rparr>))
   \<and> (fst (rollback E (engine s) (task_vbid task) (task_rollbackSeqno task))
        = ENGINE_NOT_MY_VBUCKET
      \<longrightarrow> RollbackTask_run E s task =
        Inr (False, s\<lparr>engine :=
               snd (rollback E (engine s) (task_vbid task) (task_rollbackSeqno task)),
             rollbackCount := Suc (rollbackCount s)\<rparr>))
   \<and> (fst (rollback E (engine s) (task_vbid task) (task_rollbackSeqno task)) = ENGINE_SUCCESS
      \<and> getVBucket E (snd (rollback E (engine s) (task_vbid task) (task_rollbackSeqno task)))
           (task_vbid task) = Some vb
      \<and> streams s (task_vbid task) = Some st
      \<longrightarrow> RollbackTask_run E s task =
        Inr (False, s\<lparr>engine :=
               snd (rollback E (engine s) (task_vbid task) (task_rollbackSeqno task)),
             streams := (streams s)(task_vbid task :=
               Some (reconnectStream E st vb (task_opaque task) (getHighSeqno vb))),
             rollbackCount := Suc (rollbackCount s)\<rparr>))"
  by (auto simp: handleResponse_def RollbackTask_run_def doRollback_def
      split: prod.splits)

theorem rollback_round_trip_witness:
  "\<not> doDisconnect pending0 \<and> opaqueMap pending0 (resp_opaque rollback_response) = Some (1, 0)
   \<and> isValidOpaque stubs pending0 (resp_opaque rollback_response) 0
   \<and> resp_opcode rollback_response = PROTOCOL_BINARY_CMD_DCP_STREAM_REQ stubs
   \<and> resp_status rollback_response = PROTOCOL_BINARY_RESPONSE_ROLLBACK stubs
   \<and> resp_bodylen rollback_response = 8
   \<and> handleResponse stubs pending0 rollback_response
       = Inr (ENGINE_SUCCESS, pending0\<lparr>writerTasks := [task42]\<rparr>)
   \<and> fst (rollback stubs (engine (rollback_answers ENGINE_TMPFAIL)) (task_vbid task42)
             (task_rollbackSeqno task42)) = ENGINE_TMPFAIL
   \<and> RollbackTask_run stubs (rollback_answers ENGINE_TMPFAIL) task42
       = Inr (True, (rollback_answers ENGINE_TMPFAIL)\<lparr>engine :=
           stub_engine0\<lparr>eng_rollback_answer := ENGINE_TMPFAIL, eng_rollbacks := [(0, 42)]\<rparr>\<rparr>)
   \<and> fst (rollback stubs (engine (rollback_answers ENGINE_NOT_MY_VBUCKET)) (task_vbid task42)
             (task_rollbackSeqno task42)) = ENGINE_NOT_MY_VBUCKET
   \<and> RollbackTask_run stubs (rollback_answers ENGINE_NOT_MY_VBUCKET) task42
       = Inr (False, (rollback_answers ENGINE_NOT_MY_VBUCKET)\<lparr>engine :=
           stub_engine0\<lparr>eng_rollback_answer := ENGINE_NOT_MY_VBUCKET,
             eng_rollbacks := [(0, 42)]\<rparr>,
           rollbackCount := 1\<rparr>)
   \<and> fst (rollback stubs (engine (rollback_answers ENGINE_SUCCESS)) (task_vbid task42)
             (task_rollbackSeqno task42)) = ENGINE_SUCCESS
   \<and> getVBucket stubs
        (snd (rollback stubs (engine (rollback_answers ENGINE_SUCCESS)) (task_vbid task42)
                (task_rollbackSeqno task42))) (task_vbid task42) = Some replica_vb
   \<and> streams (rollback_answers ENGINE_SUCCESS) (task_vbid task42) = Some pending_stream
   \<and> RollbackTask_run stubs (rollback_answers ENGINE_SUCCESS) task42
       = Inr (False, (rollback_answers ENGINE_SUCCESS)\<lparr>engine :=
           stub_engine0\<lparr>eng_rollback_answer := ENGINE_SUCCESS, eng_rollbacks := [(0, 42)]\<rparr>,
           streams := (streams (rollback_answers ENGINE_SUCCESS))(0 :=
             Some (reconnectStream stubs pending_stream replica_vb 7 0)),
           rollbackCount := 1\<rparr>)"
proof -
  have t: "task_vbid task42 = 0" "task_rollbackSeqno task42 = 42" "task_opaque task42 = 7"
    by (simp_all add: task42_def)
  have tk: "\<lparr> task_opaque = 7, task_vbid = 0, task_rollbackSeqno = 42 \<rparr> = task42"
    by (simp add: task42_def)
  have w: "writerTasks pending0 = []"
    by (simp add: pending0_def negotiated0_def consumer0_def DcpConsumer_new_def)
  have c: "rollbackCount (rollback_answers a) = 0" for a
    by (simp add: rollback_answers_def pending0_def negotiated0_def consumer0_def
        DcpConsumer_new_def)
  have v: "getVBucket stubs
      (stub_engine0\<lparr>eng_rollback_answer := ENGINE_SUCCESS, eng_rollbacks := [(0, 42)]\<rparr>) 0
      = Some replica_vb"
    by (simp add: stubs_def stub_engine0_def)
  have p: "streams (rollback_answers ENGINE_SUCCESS) 0 = Some pending_stream"
    by (simp add: rollback_answers_def pending0_def)
  have h: "getHighSeqno replica_vb = 0"
    by (simp add: replica_vb_def)
  have first: "handleResponse stubs pending0 rollback_response
       = Inr (ENGINE_SUCCESS, pending0\<lparr>writerTasks := [task42]\<rparr>)"
    using rollback_round_trip
            [where s = pending0 and resp = rollback_response and add_opaque = 1 and vbid = 0
               and E = stubs]
      pending0_connected pending0_opaque pending0_valid rollback_response_fields
      rollback_response_seqno w tk
    by simp
  have again: "RollbackTask_run stubs (rollback_answers ENGINE_TMPFAIL) task42
       = Inr (True, (rollback_answers ENGINE_TMPFAIL)\<lparr>engine :=
           stub_engine0\<lparr>eng_rollback_answer := ENGINE_TMPFAIL, eng_rollbacks := [(0, 42)]\<rparr>\<rparr>)"
    using rollback_round_trip
            [where s = "rollback_answers ENGINE_TMPFAIL" and task = task42 and E = stubs]
      stubs_rollback [of ENGINE_TMPFAIL] t
    by simp
  have gone: "RollbackTask_run stubs (rollback_answers ENGINE_NOT_MY_VBUCKET) task42
       = Inr (False, (rollback_answers ENGINE_NOT_MY_VBUCKET)\<lparr>engine :=
           stub_engine0\<lparr>eng_rollback_answer := ENGINE_NOT_MY_VBUCKET,
             eng_rollbacks := [(0, 42)]\<rparr>,
           rollbackCount := 1\<rparr>)"
    using rollback_round_trip
            [where s = "rollback_answers ENGINE_NOT_MY_VBUCKET" and task = task42
               and E = stubs]
      stubs_rollback [of ENGINE_NOT_MY_VBUCKET] t c
    by simp
  have reconnected: "RollbackTask_run stubs (rollback_answers ENGINE_SUCCESS) task42
       = Inr (False, (rollback_answers ENGINE_SUCCESS)\<lparr>engine :=
           stub_engine0\<lparr>eng_rollback_answer := ENGINE_SUCCESS, eng_rollbacks := [(0, 42)]\<rparr>,
           streams := (streams (rollback_answers ENGINE_SUCCESS))(0 :=
             Some (reconnectStream stubs pending_stream replica_vb 7 0)),
           rollbackCount := 1\<rparr>)"
    using rollback_round_trip
            [where s = "rollback_answers ENGINE_SUCCESS" and task = task42 and E = stubs
               and vb = replica_vb and st = pending_stream]
      stubs_rollback [of ENGINE_SUCCESS] t c v p h
    by simp
  show ?thesis
    using first again gone reconnected pending0_connected pending0_opaque pending0_valid
      rollback_response_fields stubs_rollback t v p
    by simp
qed

text \<open>
  C4 as stated fails on NOT_MY_VBUCKET: the task gives up and the rollback counter
  goes from 0 to 1 all the same.
\<close>

theorem rollback_counted_on_not_my_vbucket:
  "fst (rollback stubs (engine (rollback_answers ENGINE_NOT_MY_VBUCKET)) 0 42)
     = ENGINE_NOT_MY_VBUCKET
   \<and> rollbackCount (rollback_answers ENGINE_NOT_MY_VBUCKET) = 0
   \<and> map_sum id (\<lambda>(again, s'). (again, rollbackCount s'))
        (RollbackTask_run stubs (rollback_answers ENGINE_NOT_MY_VBUCKET) task42)
     = Inr (False, 1)"
  by (simp add: RollbackTask_run_def doRollback_def stubs_rollback task42_def)
     (simp add: rollback_answers_def pending0_def negotiated0_def consumer0_def
        DcpConsumer_new_def)

text \<open>
  C5, as amended. For a response to a stream request with a known opaque: with status
  ROLLBACK and a body length other than 8, handleResponse returns DISCONNECT; with the
  success status and a body length that is zero or not a multiple of 16, it returns
  DISCONNECT; with any other status the body length is not looked at, the response goes
  to streamAccepted and handleResponse returns SUCCESS.
\<close>

theorem stream_request_response_lengths:
  assumes "\<not> doDisconnect s"
    and "opaqueMap s (resp_opaque resp) = Some (add_opaque, vbid)"
    and "isValidOpaque E s (resp_opaque resp) vbid"
    and "resp_opcode resp = PROTOCOL_BINARY_CMD_DCP_STREAM_REQ E"
  shows "(resp_status resp = PROTOCOL_BINARY_RESPONSE_ROLLBACK E \<and> resp_bodylen resp \<noteq> 8
            \<longrightarrow> handleResponse E s resp = Inr (ENGINE_DISCONNECT, s))
       \<and> (resp_status resp \<noteq> PROTOCOL_BINARY_RESPONSE_ROLLBACK E
            \<and> resp_status resp = ENGINE_SUCCESS_value E
            \<and> (resp_bodylen resp = 0 \<or> unat (resp_bodylen resp) mod 16 \<noteq> 0)
            \<longrightarrow> handleResponse E s resp = Inr (ENGINE_DISCONNECT, s))
       \<and> (resp_status resp \<noteq> PROTOCOL_BINARY_RESPONSE_ROLLBACK E
            \<and> resp_status resp \<noteq> ENGINE_SUCCESS_value E
            \<longrightarrow> (\<exists>s'. streamAccepted E s (resp_opaque resp) (resp_status resp)
                         (resp_body resp) (resp_bodylen resp) = Inr s'
                     \<and> handleResponse E s resp = Inr (ENGINE_SUCCESS, s')))"
proof -
  obtain s' where sa: "resp_status resp \<noteq> ENGINE_SUCCESS_value E \<Longrightarrow>
      streamAccepted E s (resp_opaque resp) (resp_status resp) (resp_body resp)
        (resp_bodylen resp) = Inr s'"
    using streamAccepted_failure_status [of "resp_status resp" E s "resp_opaque resp"
        "resp_body resp" "resp_bodylen resp"]
    by blast
  show ?thesis
    using assms sa
    by (auto simp: handleResponse_def Let_def bodylen_is_8 bodylen_is_0 bodylen_mod_16
        ucast_ucast_bodylen)
qed

lemma error_response_fields:
  "resp_opaque error_response = 7"
  "resp_opcode error_response = PROTOCOL_BINARY_CMD_DCP_STREAM_REQ stubs"
  "resp_status error_response = 1"
  "resp_bodylen error_response = 0"
  "resp_body error_response = []"
  by (simp_all add: error_response_def stubs_def)

lemma stubs_statuses:
  "PROTOCOL_BINARY_RESPONSE_ROLLBACK stubs = 0x23" "ENGINE_SUCCESS_value stubs = 0"
  "PROTOCOL_BINARY_CMD_DCP_STREAM_REQ stubs = 0x53"
  by (simp_all add: stubs_def)

theorem stream_request_response_lengths_witness:
  "\<not> doDisconnect pending0 \<and> opaqueMap pending0 7 = Some (1, 0)
   \<and> isValidOpaque stubs pending0 7 0
   \<and> resp_status (rollback_response\<lparr>resp_bodylen := 4\<rparr>) = PROTOCOL_BINARY_RESPONSE_ROLLBACK stubs
   \<and> resp_bodylen (rollback_response\<lparr>resp_bodylen := 4\<rparr>) \<noteq> 8
   \<and> handleResponse stubs pending0 (rollback_response\<lparr>resp_bodylen := 4\<rparr>)
       = Inr (ENGINE_DISCONNECT, pending0)
   \<and> resp_status (error_response\<lparr>resp_status := 0\<rparr>) \<noteq> PROTOCOL_BINARY_RESPONSE_ROLLBACK stubs
   \<and> resp_status (error_response\<lparr>resp_status := 0\<rparr>) = ENGINE_SUCCESS_value stubs
   \<and> resp_bodylen (error_response\<lparr>resp_status := 0\<rparr>) = 0
   \<and> handleResponse stubs pending0 (error_response\<lparr>resp_status := 0\<rparr>)
       = Inr (ENGINE_DISCONNECT, pending0)
   \<and> resp_status error_response \<noteq> PROTOCOL_BINARY_RESPONSE_ROLLBACK stubs
   \<and> resp_status error_response \<noteq> ENGINE_SUCCESS_value stubs
   \<and> (\<exists>s'. streamAccepted stubs pending0 7 1 [] 0 = Inr s'
          \<and> handleResponse stubs pending0 error_response = Inr (ENGINE_SUCCESS, s'))"
proof -
  have short: "handleResponse stubs pending0 (rollback_response\<lparr>resp_bodylen := 4\<rparr>)
       = Inr (ENGINE_DISCONNECT, pending0)"
    using stream_request_response_lengths
            [where s = pending0 and resp = "rollback_response\<lparr>resp_bodylen := 4\<rparr>"
               and add_opaque = 1 and vbid = 0 and E = stubs]
      pending0_connected pending0_opaque pending0_valid rollback_response_fields
    by simp
  have empty: "handleResponse stubs pending0 (error_response\<lparr>resp_status := 0\<rparr>)
       = Inr (ENGINE_DISCONNECT, pending0)"
    using stream_request_response_lengths
            [where s = pending0 and resp = "error_response\<lparr>resp_status := 0\<rparr>"
               and add_opaque = 1 and vbid = 0 and E = stubs]
      pending0_connected pending0_opaque pending0_valid error_response_fields stubs_statuses
    by simp
  have refused: "\<exists>s'. streamAccepted stubs pending0 7 1 [] 0 = Inr s'
          \<and> handleResponse stubs pending0 error_response = Inr (ENGINE_SUCCESS, s')"
    using stream_request_response_lengths
            [where s = pending0 and resp = error_response
               and add_opaque = 1 and vbid = 0 and E = stubs]
      pending0_connected pending0_opaque pending0_valid error_response_fields stubs_statuses
    by simp
  show ?thesis
    using short empty refused pending0_connected pending0_opaque pending0_valid
      rollback_response_fields error_response_fields stubs_statuses
    by simp
qed

text \<open>
  C5 as stated fails for a status that is neither ROLLBACK nor success: the
  response with status 1 and an empty body is accepted with SUCCESS.
\<close>

theorem empty_body_with_error_status:
  "resp_status error_response \<noteq> PROTOCOL_BINARY_RESPONSE_ROLLBACK stubs
   \<and> resp_bodylen error_response = 0
   \<and> opaqueMap pending0 (resp_opaque error_response) = Some (1, 0)
   \<and> map_sum id fst (handleResponse stubs pending0 error_response) = Inr ENGINE_SUCCESS"
  by (simp add: handleResponse_def streamAccepted_def Let_def pending0_connected
      pending0_opaque pending0_valid error_response_fields stubs_statuses)
     (simp add: pending0_def pending_stream_def stubs_def)

subsection \<open>The ready list\<close>

lemma getNextItem_loop_None:
  "getNextItem_loop E s = Inr (None, s') \<Longrightarrow> ready s' = [] \<and> paused s'"
proof (induction E s rule: getNextItem_loop.induct)
  case (1 E s)
  show ?case
  proof (cases "ready s")
    case Nil
    with "1.prems" show ?thesis by (subst (asm) getNextItem_loop.simps) auto
  next
    case (Cons vbucket rest)
    show ?thesis
    proof (cases "streams s vbucket")
      case None
      with Cons "1.prems" "1.IH"(1) show ?thesis
        by (subst (asm) getNextItem_loop.simps) simp
    next
      case (Some stream)
      obtain op stream' where nx: "stream_next E stream = (op, stream')"
        by (cases "stream_next E stream")
      show ?thesis
      proof (cases op)
        case None
        with Cons Some nx "1.prems" "1.IH"(2) show ?thesis
          by (subst (asm) getNextItem_loop.simps) simp
      next
        case (Some r)
        with Cons \<open>streams s vbucket = Some stream\<close> nx "1.prems" show ?thesis
          by (subst (asm) getNextItem_loop.simps) (simp split: if_splits)
      qed
    qed
  qed
qed

lemma getNextItem_None: "getNextItem E s = Inr (None, s') \<Longrightarrow> ready s' = [] \<and> paused s'"
  by (simp add: getNextItem_def getNextItem_loop_None)

lemma update_order:
  "t\<lparr>paused := p, ready := r\<rparr> = t\<lparr>ready := r, paused := p\<rparr>"
  "t\<lparr>paused := p, streams := f\<rparr> = t\<lparr>streams := f, paused := p\<rparr>"
  by simp_all

lemma getNextItem_unfold:
  "getNextItem E t =
     (case ready t of
        [] \<Rightarrow> Inr (None, t\<lparr>paused := True\<rparr>)
      | vb # rs \<Rightarrow>
          (case streams t vb of
             None \<Rightarrow> getNextItem E (t\<lparr>ready := rs\<rparr>)
           | Some stream \<Rightarrow>
               (case stream_next E stream of
                  (None, stream') \<Rightarrow>
                    getNextItem E
                      (t\<lparr>ready := rs, streams := (streams t)(vb := Some stream')\<rparr>)
                | (Some r, stream') \<Rightarrow>
                    if outboundEvent (getEvent r)
                    then Inr (Some r,
                      t\<lparr>paused := False, ready := rs @ [vb],
                        streams := (streams t)(vb := Some stream')\<rparr>)
                    else Inl Abort)))"
  unfolding getNextItem_def
  by (subst getNextItem_loop.simps)
     (simp add: update_order split: list.splits option.splits prod.splits)

text \<open>
  The \<^verbatim>\<open>default\<close> arm of the loop's switch: a response that is not of an
  outbound kind is not returned, the process aborts.
\<close>

lemma getNextItem_aborts_on_other_event:
  assumes "ready s = vbucket # rest" and "streams s vbucket = Some st"
    and "stream_next E st = (Some op, st')" and "\<not> outboundEvent (getEvent op)"
  shows "getNextItem E s = Inl Abort"
  using assms by (subst getNextItem_unfold) simp





lemma stubs_next:
  "stream_next stubs (reading_stream answer) = (None, reading_stream answer)"
  "stream_next stubs pending_stream =
     (Some (StreamRequest 0 7 0 0 (- 1) 0x1111 0 0), pending_stream\<lparr>st_readyQ := []\<rparr>)"
  by (simp_all add: stubs_def stub_next_def reading_stream_def pending_stream_def
      outboundEvent_def)

lemma ready_lists:
  "ready negotiated0 = []" "ready gone0 = [1]" "ready idle0 = [0]" "ready pending0 = [0]"
  by (simp_all add: negotiated0_def consumer0_def DcpConsumer_new_def gone0_def idle0_def
      with_stream_def pending0_def)

lemma ready_streams:
  "streams gone0 1 = None" "streams idle0 0 = Some (reading_stream ENGINE_SUCCESS)"
  "streams pending0 0 = Some pending_stream"
  by (simp_all add: negotiated0_def consumer0_def DcpConsumer_new_def gone0_def idle0_def
      with_stream_def pending0_def)


lemma notifyStreamReady_distinct:
  "distinct (ready s) \<Longrightarrow> distinct (ready (notifyStreamReady s vbucket))"
  by (simp add: notifyStreamReady_def)

lemma addStream_distinct_when_absent:
  "distinct (ready s) \<Longrightarrow> vbucket \<notin> set (ready s) \<Longrightarrow>
   distinct (ready (snd (addStream E s opaque vbucket flags)))"
  by (simp add: addStream_def Let_def split: option.splits)

lemma addStream_pending0: "addStream stubs negotiated0 1 0 0 = (ENGINE_SUCCESS, pending0)"
  by (simp add: addStream_def Let_def negotiated0_connected)
     (simp add: negotiated0_def consumer0_def DcpConsumer_new_def config0_def stubs_def
        stub_engine0_def replica_vb_def pending0_def pending_stream_def stub_new_def
        fun_eq_iff)

text \<open>
  C9. The stream-ready notification keeps ready free of duplicates
  (\<open>notifyStreamReady_distinct\<close>), and so does addStream when the vbid is not in
  ready (\<open>addStream_distinct_when_absent\<close>). But addStream appends without looking:
  after \<^verbatim>\<open>addStream(1, 0, 0)\<close>, \<^verbatim>\<open>closeStream(1, 0)\<close> and
  \<^verbatim>\<open>addStream(2, 0, 0)\<close>, with no step in between, partition 0 is in ready
  twice.
\<close>

theorem addStream_duplicates_ready:
  "addStream stubs negotiated0 1 0 0 = (ENGINE_SUCCESS, pending0)
   \<and> ready pending0 = [0]
   \<and> fst (closeStream stubs pending0 1 0) = ENGINE_SUCCESS
   \<and> ready (snd (closeStream stubs pending0 1 0)) = [0]
   \<and> fst (addStream stubs (snd (closeStream stubs pending0 1 0)) 2 0 0) = ENGINE_SUCCESS
   \<and> ready (snd (addStream stubs (snd (closeStream stubs pending0 1 0)) 2 0 0)) = [0, 0]
   \<and> \<not> distinct (ready (snd (addStream stubs (snd (closeStream stubs pending0 1 0)) 2 0 0)))"
proof -
  have closed: "closeStream stubs pending0 1 0 =
      (ENGINE_SUCCESS,
       pending0\<lparr>opaqueMap := (opaqueMap pending0)(1 := None),
         streams := (streams pending0)(0 := Some (pending_stream\<lparr>st_state := STREAM_DEAD\<rparr>)),
         flowControl := flowControl pending0 + 0\<rparr>)"
    by (simp add: closeStream_def Let_def pending0_connected ready_streams)
       (simp add: stubs_def)
  have again: "addStream stubs
      (pending0\<lparr>opaqueMap := (opaqueMap pending0)(1 := None),
         streams := (streams pending0)(0 := Some (pending_stream\<lparr>st_state := STREAM_DEAD\<rparr>)),
         flowControl := flowControl pending0 + 0\<rparr>) 2 0 0
      \<in> {r. fst r = ENGINE_SUCCESS \<and> ready (snd r) = [0, 0]}"
    by (simp add: addStream_def Let_def pending0_connected ready_lists)
       (simp add: stubs_def pending0_def negotiated0_def consumer0_def DcpConsumer_new_def
          stub_engine0_def replica_vb_def)
  show ?thesis
    using closed again addStream_pending0 ready_lists(4) by simp
qed

subsection \<open>The order of the outbound sources\<close>

text \<open>
  C6. On a connection not flagged for disconnect, step records the time and consults
  the sources in the order flow-control acknowledgement, noop handling, priority,
  extended metadata, value compression, cursor dropping: the first that does not report
  FAILED decides, its SUCCESS becoming WANT_MORE and any other result being returned as it
  is, and the later sources are not run. When all six report FAILED, getNextItem is asked:
  a response is sent through the producers with its result lifted in the same way; when
  it returns nothing the consumer is paused and step returns SUCCESS.
\<close>

theorem step_consults_sources_in_order:
  assumes "\<not> doDisconnect s"
  shows "step E now s =
           (case firstNotFailed (outboundSources E now) (s\<lparr>lastWalkTime := now\<rparr>) of
              Inl (ret, s') \<Rightarrow>
                Inr (if ret = ENGINE_SUCCESS then ENGINE_WANT_MORE else ret, s')
            | Inr s' \<Rightarrow>
                (case getNextItem E s' of
                   Inl f \<Rightarrow> Inl f
                 | Inr (None, s'') \<Rightarrow> Inr (ENGINE_SUCCESS, s''\<lparr>paused := True\<rparr>)
                 | Inr (Some resp, s'') \<Rightarrow>
                     (case sendResponse E resp of
                        Inl f \<Rightarrow> Inl f
                      | Inr ret \<Rightarrow>
                          Inr (if ret = ENGINE_SUCCESS then ENGINE_WANT_MORE else ret, s''))))"
proof -
  have p: "getNextItem E t = Inr (None, t') \<Longrightarrow> t'\<lparr>paused := True\<rparr> = t'" for t t'
    using getNextItem_None [of E t t'] by simp
  show ?thesis
    using assms
    by (auto simp: step_def Let_def outboundSources_def flowControlSource_def wantMore_def p
        split: prod.splits sum.splits option.splits)
qed

lemma stubs_flow: "handleFlowCtl stubs fc = (ENGINE_FAILED, fc)"
  by (simp add: stubs_def)

lemma stubs_control: "control stubs opaque key val = ENGINE_SUCCESS"
  by (simp add: stubs_def)

lemma stubs_stream_req: "stream_req stubs opaque vb flags a b c d e = ENGINE_SUCCESS"
  by (simp add: stubs_def)

lemma consumer0_flags:
  "\<not> doDisconnect consumer0" "pendingEnableNoop consumer0"
  by (simp_all add: consumer0_def DcpConsumer_new_def config0_def)

lemma negotiated0_flags:
  "\<not> pendingEnableNoop negotiated0" "\<not> pendingSendNoopInterval negotiated0"
  "\<not> pendingSetPriority negotiated0" "\<not> pendingEnableExtMetaData negotiated0"
  "\<not> pendingEnableValueCompression negotiated0" "\<not> pendingSupportCursorDropping negotiated0"
  "lastNoopTime negotiated0 = 0" "noopInterval negotiated0 = 180"
  by (simp_all add: negotiated0_def consumer0_def DcpConsumer_new_def config0_def)

lemma pending0_flags:
  "\<not> pendingEnableNoop pending0" "\<not> pendingSendNoopInterval pending0"
  "\<not> pendingSetPriority pending0" "\<not> pendingEnableExtMetaData pending0"
  "\<not> pendingEnableValueCompression pending0" "\<not> pendingSupportCursorDropping pending0"
  "lastNoopTime pending0 = 0" "noopInterval pending0 = 180"
  by (simp_all add: pending0_def negotiated0_flags)

theorem step_consults_sources_in_order_witness:
  "\<not> doDisconnect consumer0
   \<and> map_sum id fst (step stubs 5 consumer0) = Inr ENGINE_WANT_MORE
   \<and> \<not> doDisconnect negotiated0
   \<and> step stubs 5 negotiated0 = Inr (ENGINE_SUCCESS, negotiated0\<lparr>lastWalkTime := 5, paused := True\<rparr>)
   \<and> map_sum id fst (step stubs 361 negotiated0) = Inr ENGINE_DISCONNECT
   \<and> \<not> doDisconnect pending0
   \<and> map_sum id fst (step stubs 5 pending0) = Inr ENGINE_WANT_MORE"
proof -
  have first: "map_sum id fst (step stubs 5 consumer0) = Inr ENGINE_WANT_MORE"
    using step_consults_sources_in_order [OF consumer0_flags(1), of stubs 5]
    by (simp add: outboundSources_def flowControlSource_def stubs_flow handleNoop_def
        mintOpaque_def stubs_control consumer0_flags)
  have fc: "negotiated0\<lparr>lastWalkTime := 5, flowControl := flowControl negotiated0\<rparr>
      = negotiated0\<lparr>lastWalkTime := 5\<rparr>"
    by simp
  have quiet: "step stubs 5 negotiated0
      = Inr (ENGINE_SUCCESS, negotiated0\<lparr>lastWalkTime := 5, paused := True\<rparr>)"
    using step_consults_sources_in_order [OF negotiated0_connected, of stubs 5]
    by (simp add: outboundSources_def flowControlSource_def stubs_flow handleNoop_def
        handlePriority_def handleExtMetaData_def handleValueCompression_def
        supportCursorDropping_def negotiated0_flags getNextItem_def
        getNextItem_loop.simps [of stubs] ready_lists)
  have late: "map_sum id fst (step stubs 361 negotiated0) = Inr ENGINE_DISCONNECT"
    using step_consults_sources_in_order [OF negotiated0_connected, of stubs 361]
    by (simp add: outboundSources_def flowControlSource_def stubs_flow handleNoop_def
        negotiated0_flags)
  have request: "map_sum id fst (step stubs 5 pending0) = Inr ENGINE_WANT_MORE"
    using step_consults_sources_in_order [OF pending0_connected, of stubs 5]
    by (simp add: outboundSources_def flowControlSource_def stubs_flow handleNoop_def
        handlePriority_def handleExtMetaData_def handleValueCompression_def
        supportCursorDropping_def pending0_flags getNextItem_def
        getNextItem_loop.simps [of stubs] ready_lists ready_streams stubs_next
        outboundEvent_def stubs_stream_req)
  show ?thesis
    using first quiet late request consumer0_flags(1) negotiated0_connected pending0_connected
    by simp
qed

end
